(* ===== verification/Prelude.thy ===== *)
theory Prelude
  imports Complex_Main
begin

text \<open>
  Shared vocabulary of the pricing-engine model.  C++ \<open>double\<close> values are modelled
  as \<open>real\<close>; the two places where the engine can produce an IEEE special value on
  purpose-free inputs (a Monte Carlo average over zero samples, \<open>0.0 / 0\<close>) are made
  explicit by the result type \<open>dresult\<close>.  C++ \<open>int\<close> arguments are \<open>int\<close>, and
  C++ integer division, which truncates towards zero, is \<open>c_div\<close>.  The collection
  \<open>pricing_simps\<close> gathers the unfolding facts that the component theories add for
  their operations.
\<close>

named_theorems pricing_simps "unfolding facts of the pricing operations"

section \<open>C++ integer division\<close>

definition c_div :: "int \<Rightarrow> int \<Rightarrow> int" where
  "c_div a b = sgn a * sgn b * (\<bar>a\<bar> div \<bar>b\<bar>)"

section \<open>Results of type double\<close>

text \<open>
  A pricing routine returns a double.  \<open>Num x\<close> is a finite value; \<open>NaN\<close> is the
  quiet NaN that \<open>0.0 / 0\<close> produces when a Monte Carlo routine averages over no
  sample at all.
\<close>

datatype dresult = Num real | NaN

lemma c_div_nonneg [simp]: "0 \<le> a \<Longrightarrow> 0 < b \<Longrightarrow> c_div a b = a div b"
  by (cases "a = 0") (auto simp: c_div_def)

lemma c_div_neg: "a < 0 \<Longrightarrow> 0 < b \<Longrightarrow> c_div a b = - ((- a) div b)"
  by (simp add: c_div_def)

text \<open>The number of loop rounds \<open>for (i = 0; i < n / 2; ++i)\<close> performs.\<close>

lemma nat_c_div2: "nat (c_div n 2) = nat (n div 2)"
proof (cases "0 \<le> n")
  case True
  then show ?thesis by simp
next
  case False
  then show ?thesis by (simp add: c_div_neg)
qed

lemma c_div2_eq_0_iff: "c_div n 2 = 0 \<longleftrightarrow> - 1 \<le> n \<and> n \<le> 1"
proof (cases "0 \<le> n")
  case True
  then show ?thesis by auto
next
  case False
  then show ?thesis by (auto simp: c_div_neg)
qed

section \<open>Sums and averages\<close>

lemma sum_list_const_real [simp]: "sum_list (map (\<lambda>_. c) xs) = real (length xs) * (c :: real)"
  by (induction xs) (auto simp: algebra_simps)

lemma sum_list_nonneg_real: "(\<And>x. x \<in> set xs \<Longrightarrow> 0 \<le> f x) \<Longrightarrow> 0 \<le> sum_list (map f xs :: real list)"
  by (induction xs) auto

lemma sum_list_mono_real:
  "(\<And>x. x \<in> set xs \<Longrightarrow> f x \<le> g x) \<Longrightarrow> sum_list (map f xs) \<le> sum_list (map g xs :: real list)"
  by (induction xs) (auto intro: add_mono)

lemma sum_list_diff_real:
  "sum_list (map f xs) - sum_list (map g xs) = sum_list (map (\<lambda>x. f x - g x) xs :: real list)"
  by (induction xs) auto

text \<open>The step from a difference of sums to a difference of discounted means.\<close>

lemma scaled_mean_diff:
  assumes "0 < (k::real)" "A - B = C - k * K"
  shows "E * A / k - E * B / k = E * C / k - K * E"
proof -
  have "E * A - E * B = E * C - K * E * k"
    using arg_cong [OF assms(2), of "\<lambda>x. E * x"] by (simp add: algebra_simps)
  then have "(E * A - E * B) / k = (E * C - K * E * k) / k" by simp
  then show ?thesis using assms(1) by (simp add: diff_divide_distrib)
qed

section \<open>Real bounds shared by the analytic formulas\<close>

lemma sqrt_2pi_ge_2: "2 \<le> sqrt (2 * pi)"
proof -
  have "4 \<le> 2 * pi" using pi_ge_two by linarith
  then have "sqrt 4 \<le> sqrt (2 * pi)" by (simp only: real_sqrt_le_iff)
  then show ?thesis by simp
qed

lemma sqrt_2pi_le_3: "sqrt (2 * pi) \<le> 3"
proof -
  have "2 * pi \<le> 9" using pi_less_4 by linarith
  then have "sqrt (2 * pi) \<le> sqrt 9" by (simp only: real_sqrt_le_iff)
  also have "sqrt 9 = (3::real)"
    using real_sqrt_abs [of 3] by simp
  finally show ?thesis .
qed

end
