(* ===== verification/RandomSource.thy ===== *)
theory RandomSource
  imports Prelude
begin

text \<open>
  The random source of \<open>MonteCarloEngine\<close>.  Every pricing method of
  src/cpp_engine/monte_carlo.hpp constructs a fresh
  \<open>std::normal_distribution<double> norm(0.0, 1.0)\<close> and draws with \<open>norm(rng)\<close>
  from the engine's \<open>std::mt19937\<close>.  The generator and the distribution belong to
  the standard library, so they are an interface here: a record \<open>normal_dist\<close> with
  the state \<open>nd_init\<close> of a freshly constructed distribution (of type \<open>'d\<close>; a
  libstdc++ distribution caches the second variate of the polar method) and the
  draw function \<open>nd_draw\<close> on the pair of distribution and generator state
  (\<open>'g\<close>).  \<open>draws N k\<close> performs \<open>k\<close> draws in sequence.  Every theorem about the
  engine holds for every such source.
\<close>

record ('d, 'g) normal_dist =
  nd_init :: 'd
  nd_draw :: "'d \<times> 'g \<Rightarrow> real \<times> ('d \<times> 'g)"

primrec draws :: "('d, 'g) normal_dist \<Rightarrow> nat \<Rightarrow> 'd \<times> 'g \<Rightarrow> real list \<times> ('d \<times> 'g)" where
  "draws N 0 st = ([], st)"
| "draws N (Suc k) st =
     (case nd_draw N st of (z, st') \<Rightarrow>
        (case draws N k st' of (zs, st'') \<Rightarrow> (z # zs, st'')))"

text \<open>\<open>draw_paths N p k\<close>: \<open>p\<close> consecutive blocks of \<open>k\<close> draws, one per simulated path.\<close>

primrec draw_paths :: "('d, 'g) normal_dist \<Rightarrow> nat \<Rightarrow> nat \<Rightarrow> 'd \<times> 'g \<Rightarrow> real list list \<times> ('d \<times> 'g)" where
  "draw_paths N 0 k st = ([], st)"
| "draw_paths N (Suc p) k st =
     (case draws N k st of (zs, st') \<Rightarrow>
        (case draw_paths N p k st' of (zss, st'') \<Rightarrow> (zs # zss, st'')))"

text \<open>
  The reflected source: the same generator, every variate negated.  A standard
  normal source and its reflection have the same law.
\<close>

definition reflect :: "('d, 'g) normal_dist \<Rightarrow> ('d, 'g) normal_dist" where
  "reflect N = N\<lparr>nd_draw := (\<lambda>st. case nd_draw N st of (z, st') \<Rightarrow> (- z, st'))\<rparr>"

text \<open>A source that replays a list of variates (zeros once it is used up).\<close>

definition list_source :: "(unit, real list) normal_dist" where
  "list_source = \<lparr>nd_init = (), nd_draw = (\<lambda>(d, zs). (case zs of [] \<Rightarrow> (0, (d, [])) | z # zs' \<Rightarrow> (z, (d, zs'))))\<rparr>"

lemma length_draws [simp]: "length (fst (draws N k st)) = k"
  by (induction k arbitrary: st) (simp_all add: case_prod_beta)

lemma length_draws_eq: "draws N k st = (zs, st') \<Longrightarrow> length zs = k"
  using length_draws [of N k st] by simp

lemma draws_add:
  "draws N (k + m) st =
     (case draws N k st of (xs, st') \<Rightarrow> (case draws N m st' of (ys, st'') \<Rightarrow> (xs @ ys, st'')))"
  by (induction k arbitrary: st) (auto split: prod.splits)

lemma draw_paths_shape:
  "draw_paths N p k st = (zss, st') \<Longrightarrow> length zss = p \<and> (\<forall>zs \<in> set zss. length zs = k)"
  by (induction p arbitrary: st zss) (auto split: prod.splits dest: length_draws_eq)

lemma draw_paths_concat:
  "draw_paths N p k st = (zss, st') \<Longrightarrow> draws N (p * k) st = (concat zss, st')"
  by (induction p arbitrary: st zss) (auto simp: draws_add split: prod.splits)

lemma reflect_simps [simp]:
  "nd_init (reflect N) = nd_init N"
  "nd_draw (reflect N) st = (case nd_draw N st of (z, st') \<Rightarrow> (- z, st'))"
  by (simp_all add: reflect_def)

lemma draws_reflect:
  "draws (reflect N) k st = (case draws N k st of (zs, st') \<Rightarrow> (map uminus zs, st'))"
  by (induction k arbitrary: st) (auto split: prod.splits)

lemma list_source_draw [simp]:
  "nd_init list_source = ()"
  "nd_draw list_source (d, []) = (0, (d, []))"
  "nd_draw list_source (d, z # zs) = (z, (d, zs))"
  by (simp_all add: list_source_def)

lemma draws_list_source:
  "k \<le> length zs \<Longrightarrow> draws list_source k (d, zs) = (take k zs, (d, drop k zs))"
proof (induction k arbitrary: zs)
  case 0
  then show ?case by simp
next
  case (Suc k)
  then obtain z zs' where "zs = z # zs'" by (cases zs) auto
  with Suc show ?case by simp
qed

end
