(* ===== verification/MonteCarlo.thy ===== *)
theory MonteCarlo
  imports RandomSource "HOL-Library.Word"
begin

text \<open>
  \<open>MonteCarloEngine\<close> (src/cpp_engine/monte_carlo.hpp): the engine object, whose only
  field is the generator \<open>rng\<close>, and its three pricing methods.  Each method is a
  function from the engine to a pair of the returned double and the engine with its
  generator advanced; its loops are primitive recursions on the number of rounds,
  threading the pair of distribution and generator state.  Integer counts are
  \<open>int\<close>, with the C++ truncating division \<open>n_paths / 2\<close> as \<open>c_div\<close>; an average
  over no sample (\<open>0.0 / 0\<close>) is \<open>NaN\<close>.  Each loop is related to a pure function of
  the list of variates it consumes (\<open>draws\<close>): these refinement lemmas carry the
  properties.
\<close>

section \<open>The engine\<close>

record 'g mc_engine =
  rng :: 'g

text \<open>\<open>MonteCarloEngine(unsigned seed = 42) : rng(seed)\<close>; seeding is the generator's.\<close>

definition MonteCarloEngine :: "(32 word \<Rightarrow> 'g) \<Rightarrow> 32 word \<Rightarrow> 'g mc_engine" where
  "MonteCarloEngine seed_rng seed = \<lparr>rng = seed_rng seed\<rparr>"

definition MonteCarloEngine_default :: "(32 word \<Rightarrow> 'g) \<Rightarrow> 'g mc_engine" where
  "MonteCarloEngine_default seed_rng = MonteCarloEngine seed_rng 42"

text \<open>\<open>is_call ? std::max(0.0, S - K) : std::max(0.0, K - S)\<close>.\<close>

definition payoff :: "bool \<Rightarrow> real \<Rightarrow> real \<Rightarrow> real" where
  "payoff is_call K S = (if is_call then max 0 (S - K) else max 0 (K - S))"

section \<open>European option with antithetic variates\<close>

definition antithetic_payoff :: "real \<Rightarrow> real \<Rightarrow> real \<Rightarrow> real \<Rightarrow> bool \<Rightarrow> real \<Rightarrow> real" where
  "antithetic_payoff S0 K drift diffusion is_call z =
     (let ST1 = S0 * exp (drift + diffusion * z);
          payoff1 = payoff is_call K ST1;
          ST2 = S0 * exp (drift - diffusion * z);
          payoff2 = payoff is_call K ST2
      in (payoff1 + payoff2) / 2)"

primrec european_loop ::
  "('d, 'g) normal_dist \<Rightarrow> real \<Rightarrow> real \<Rightarrow> real \<Rightarrow> real \<Rightarrow> bool \<Rightarrow> nat \<Rightarrow> real \<Rightarrow> 'd \<times> 'g
   \<Rightarrow> real \<times> ('d \<times> 'g)" where
  "european_loop N S0 K drift diffusion is_call 0 sum_payoffs st = (sum_payoffs, st)"
| "european_loop N S0 K drift diffusion is_call (Suc i) sum_payoffs st =
     (case nd_draw N st of (z, st') \<Rightarrow>
        european_loop N S0 K drift diffusion is_call i
          (sum_payoffs + antithetic_payoff S0 K drift diffusion is_call z) st')"

definition price_european ::
  "('d, 'g) normal_dist \<Rightarrow> 'g mc_engine \<Rightarrow> real \<Rightarrow> real \<Rightarrow> real \<Rightarrow> real \<Rightarrow> real \<Rightarrow> bool \<Rightarrow> int
   \<Rightarrow> dresult \<times> 'g mc_engine" where
  "price_european N e S0 K T r sigma is_call n_paths =
     (let drift = (r - 0.5 * sigma * sigma) * T;
          diffusion = sigma * sqrt T;
          half = c_div n_paths 2
      in case european_loop N S0 K drift diffusion is_call (nat half) 0 (nd_init N, rng e) of
           (sum_payoffs, (_, g')) \<Rightarrow>
             (if half = 0 then NaN else Num (exp (- r * T) * sum_payoffs / real_of_int half),
              e\<lparr>rng := g'\<rparr>))"

text \<open>The reference: the discounted mean of the antithetic payoffs of the draws.\<close>

definition european_estimate :: "real \<Rightarrow> real \<Rightarrow> real \<Rightarrow> real \<Rightarrow> real \<Rightarrow> bool \<Rightarrow> real list \<Rightarrow> real" where
  "european_estimate S0 K T r sigma is_call zs =
     exp (- r * T) *
     sum_list (map (antithetic_payoff S0 K ((r - 0.5 * sigma * sigma) * T) (sigma * sqrt T) is_call) zs)
     / real (length zs)"

section \<open>Simulated GBM prices\<close>

text \<open>
  The prices after each exact GBM step \<open>S := S * exp (drift + diffusion * z)\<close>
  along a list of variates (the initial price is not included).
\<close>

fun gbm_prices :: "real \<Rightarrow> real \<Rightarrow> real \<Rightarrow> real list \<Rightarrow> real list" where
  "gbm_prices S drift diffusion [] = []"
| "gbm_prices S drift diffusion (z # zs) =
     (let S' = S * exp (drift + diffusion * z) in S' # gbm_prices S' drift diffusion zs)"

section \<open>Arithmetic-average Asian option\<close>

primrec asian_steps ::
  "('d, 'g) normal_dist \<Rightarrow> real \<Rightarrow> real \<Rightarrow> nat \<Rightarrow> real \<Rightarrow> real \<Rightarrow> 'd \<times> 'g
   \<Rightarrow> real \<times> real \<times> ('d \<times> 'g)" where
  "asian_steps N drift diffusion 0 S sum_S st = (S, sum_S, st)"
| "asian_steps N drift diffusion (Suc k) S sum_S st =
     (case nd_draw N st of (z, st') \<Rightarrow>
        (let S' = S * exp (drift + diffusion * z)
         in asian_steps N drift diffusion k S' (sum_S + S') st'))"

text \<open>
  \<open>avg_price = sum_S / n_steps\<close> and the payoff against \<open>K\<close>.  For \<open>n_steps = 0\<close>
  the inner loop does not run, \<open>sum_S / n_steps\<close> is \<open>0.0 / 0 = NaN\<close>, and
  \<open>std::max(0.0, NaN)\<close> returns its first argument: the payoff is \<open>0\<close>.
\<close>

definition asian_payoff :: "bool \<Rightarrow> real \<Rightarrow> real \<Rightarrow> int \<Rightarrow> real" where
  "asian_payoff is_call K sum_S n_steps =
     (if n_steps = 0 then 0 else payoff is_call K (sum_S / real_of_int n_steps))"

primrec asian_loop ::
  "('d, 'g) normal_dist \<Rightarrow> real \<Rightarrow> real \<Rightarrow> real \<Rightarrow> real \<Rightarrow> bool \<Rightarrow> int \<Rightarrow> nat \<Rightarrow> real \<Rightarrow> 'd \<times> 'g
   \<Rightarrow> real \<times> ('d \<times> 'g)" where
  "asian_loop N S0 K drift diffusion is_call n_steps 0 sum_payoffs st = (sum_payoffs, st)"
| "asian_loop N S0 K drift diffusion is_call n_steps (Suc p) sum_payoffs st =
     (case asian_steps N drift diffusion (nat n_steps) S0 0 st of (S, sum_S, st') \<Rightarrow>
        asian_loop N S0 K drift diffusion is_call n_steps p
          (sum_payoffs + asian_payoff is_call K sum_S n_steps) st')"

definition price_asian ::
  "('d, 'g) normal_dist \<Rightarrow> 'g mc_engine \<Rightarrow> real \<Rightarrow> real \<Rightarrow> real \<Rightarrow> real \<Rightarrow> real \<Rightarrow> bool \<Rightarrow> int \<Rightarrow> int
   \<Rightarrow> dresult \<times> 'g mc_engine" where
  "price_asian N e S0 K T r sigma is_call n_steps n_paths =
     (let dt = T / real_of_int n_steps;
          drift = (r - 0.5 * sigma * sigma) * dt;
          diffusion = sigma * sqrt dt
      in case asian_loop N S0 K drift diffusion is_call n_steps (nat n_paths) 0 (nd_init N, rng e) of
           (sum_payoffs, (_, g')) \<Rightarrow>
             (if n_paths = 0 then NaN else Num (exp (- r * T) * sum_payoffs / real_of_int n_paths),
              e\<lparr>rng := g'\<rparr>))"

section \<open>Knock-out barrier option\<close>

text \<open>
  The inner loop stops at the first simulated price at or beyond the barrier
  (\<open>S <= B\<close> for down-and-out, \<open>S >= B\<close> otherwise) and reports the hit; the initial
  price \<open>S0\<close> itself is never tested.
\<close>

primrec barrier_steps ::
  "('d, 'g) normal_dist \<Rightarrow> real \<Rightarrow> real \<Rightarrow> real \<Rightarrow> bool \<Rightarrow> nat \<Rightarrow> real \<Rightarrow> 'd \<times> 'g
   \<Rightarrow> real \<times> bool \<times> ('d \<times> 'g)" where
  "barrier_steps N drift diffusion B is_down_and_out 0 S st = (S, False, st)"
| "barrier_steps N drift diffusion B is_down_and_out (Suc k) S st =
     (case nd_draw N st of (z, st') \<Rightarrow>
        (let S' = S * exp (drift + diffusion * z)
         in if is_down_and_out \<and> S' \<le> B then (S', True, st')
            else if \<not> is_down_and_out \<and> S' \<ge> B then (S', True, st')
            else barrier_steps N drift diffusion B is_down_and_out k S' st'))"

definition barrier_path_payoff :: "bool \<Rightarrow> real \<Rightarrow> real \<Rightarrow> bool \<Rightarrow> real" where
  "barrier_path_payoff is_call K S barrier_hit = (if \<not> barrier_hit then payoff is_call K S else 0)"

primrec barrier_loop ::
  "('d, 'g) normal_dist \<Rightarrow> real \<Rightarrow> real \<Rightarrow> real \<Rightarrow> real \<Rightarrow> real \<Rightarrow> bool \<Rightarrow> bool \<Rightarrow> nat \<Rightarrow> nat
   \<Rightarrow> real \<Rightarrow> 'd \<times> 'g \<Rightarrow> real \<times> ('d \<times> 'g)" where
  "barrier_loop N S0 K B drift diffusion is_call is_down_and_out n_steps 0 sum_payoffs st =
     (sum_payoffs, st)"
| "barrier_loop N S0 K B drift diffusion is_call is_down_and_out n_steps (Suc p) sum_payoffs st =
     (case barrier_steps N drift diffusion B is_down_and_out n_steps S0 st of (S, barrier_hit, st') \<Rightarrow>
        barrier_loop N S0 K B drift diffusion is_call is_down_and_out n_steps p
          (sum_payoffs + barrier_path_payoff is_call K S barrier_hit) st')"

definition price_barrier ::
  "('d, 'g) normal_dist \<Rightarrow> 'g mc_engine \<Rightarrow> real \<Rightarrow> real \<Rightarrow> real \<Rightarrow> real \<Rightarrow> real \<Rightarrow> real \<Rightarrow> bool
   \<Rightarrow> bool \<Rightarrow> int \<Rightarrow> int \<Rightarrow> dresult \<times> 'g mc_engine" where
  "price_barrier N e S0 K B T r sigma is_call is_down_and_out n_steps n_paths =
     (let dt = T / real_of_int n_steps;
          drift = (r - 0.5 * sigma * sigma) * dt;
          diffusion = sigma * sqrt dt
      in case barrier_loop N S0 K B drift diffusion is_call is_down_and_out (nat n_steps) (nat n_paths) 0
                (nd_init N, rng e) of
           (sum_payoffs, (_, g')) \<Rightarrow>
             (if n_paths = 0 then NaN else Num (exp (- r * T) * sum_payoffs / real_of_int n_paths),
              e\<lparr>rng := g'\<rparr>))"

text \<open>The knock-out test of the inner barrier loop (monte_carlo.hpp lines 95--101).\<close>

definition breach :: "bool \<Rightarrow> real \<Rightarrow> real \<Rightarrow> bool" where
  "breach is_down_and_out B S = (if is_down_and_out then S \<le> B else B \<le> S)"

section \<open>Lemmas\<close>

lemma payoff_nonneg [simp]: "0 \<le> payoff c K S"
  by (simp add: payoff_def)

lemma european_loop_draws:
  "european_loop N S0 K a b c k acc st =
     (case draws N k st of (zs, st') \<Rightarrow> (acc + sum_list (map (antithetic_payoff S0 K a b c) zs), st'))"
  by (induction k arbitrary: acc st) (auto simp: algebra_simps split: prod.splits)

lemma antithetic_payoff_uminus [simp]:
  "antithetic_payoff S0 K a b c (- z) = antithetic_payoff S0 K a b c z"
  by (simp add: antithetic_payoff_def Let_def algebra_simps)

lemma length_gbm_prices [simp]: "length (gbm_prices S a b zs) = length zs"
  by (induction zs arbitrary: S) (simp_all add: Let_def)

lemma gbm_prices_closed_form:
  "gbm_prices S a b zs =
     map (\<lambda>j. S * exp (real (Suc j) * a + b * sum_list (take (Suc j) zs))) [0..<length zs]"
proof (induction zs arbitrary: S)
  case Nil
  then show ?case by simp
next
  case (Cons z zs)
  have "map (\<lambda>j. S * exp (a + b * z) * exp (real (Suc j) * a + b * sum_list (take (Suc j) zs))) [0..<length zs]
        = map (\<lambda>j. S * exp (real (Suc (Suc j)) * a + b * sum_list (take (Suc (Suc j)) (z # zs)))) [0..<length zs]"
    by (intro map_cong) (simp_all add: mult_exp_exp algebra_simps)
  then show ?case
    using Cons.IH [of "S * exp (a + b * z)"] by (simp add: Let_def map_upt_Suc del: upt_Suc)
qed

lemma last_gbm_prices:
  "last (S # gbm_prices S a b zs) = S * exp (real (length zs) * a + b * sum_list zs)"
proof (induction zs arbitrary: S)
  case Nil
  then show ?case by simp
next
  case (Cons z zs)
  show ?case
    using Cons.IH [of "S * exp (a + b * z)"]
    by (cases zs) (simp_all add: Let_def mult_exp_exp algebra_simps)
qed

lemma payoff_call_put: "payoff True K S - payoff False K S = S - K"
  by (simp add: payoff_def max_def)

lemma payoff_zero_strike: "0 \<le> S \<Longrightarrow> payoff True 0 S = S"
  by (simp add: payoff_def)

lemma antithetic_payoff_call_put:
  assumes "0 \<le> S0"
  shows "antithetic_payoff S0 K a b True z - antithetic_payoff S0 K a b False z =
         antithetic_payoff S0 0 a b True z - K"
proof -
  have "0 \<le> S0 * exp (a + b * z)" "0 \<le> S0 * exp (a - b * z)" using assms by simp_all
  then show ?thesis
    using payoff_call_put [of K "S0 * exp (a + b * z)"] payoff_call_put [of K "S0 * exp (a - b * z)"]
    by (simp add: antithetic_payoff_def payoff_zero_strike Let_def field_simps)
qed

section \<open>Loops as functions of the variates they consume\<close>

lemma asian_steps_draws:
  "asian_steps N a b k S acc st =
     (case draws N k st of (zs, st') \<Rightarrow>
        (last (S # gbm_prices S a b zs), acc + sum_list (gbm_prices S a b zs), st'))"
  by (induction k arbitrary: S acc st) (auto simp: Let_def algebra_simps split: prod.splits)

lemma asian_loop_draws:
  "asian_loop N S0 K a b c n p acc st =
     (case draw_paths N p (nat n) st of (zss, st') \<Rightarrow>
        (acc + sum_list (map (\<lambda>zs. asian_payoff c K (sum_list (gbm_prices S0 a b zs)) n) zss), st'))"
  by (induction p arbitrary: acc st) (auto simp: asian_steps_draws algebra_simps split: prod.splits)

lemma barrier_steps_survive:
  "barrier_steps N a b B d k S st = (S', False, st') \<Longrightarrow> draws N k st = (zs, st'') \<Longrightarrow>
   S' = last (S # gbm_prices S a b zs) \<and> st' = st''"
proof (induction k arbitrary: S st zs)
  case 0
  then show ?case by simp
next
  case (Suc k)
  obtain z st1 where z: "nd_draw N st = (z, st1)" by (cases "nd_draw N st") simp
  obtain zs1 where zs1: "draws N k st1 = (zs1, st'')" and zs: "zs = z # zs1"
    using Suc.prems(2) z by (auto split: prod.splits)
  have "barrier_steps N a b B d k (S * exp (a + b * z)) st1 = (S', False, st')"
    using Suc.prems(1) z by (simp add: Let_def split: if_splits)
  from Suc.IH [OF this zs1] show ?case
    using zs by (simp add: Let_def)
qed

lemma antithetic_payoff_zero_vol:
  "antithetic_payoff S0 K a 0 c = (\<lambda>z. payoff c K (S0 * exp a))"
  by (simp add: antithetic_payoff_def fun_eq_iff)

section \<open>Properties\<close>

text \<open>
  C10. Refinement of \<open>price_european\<close>: it draws exactly \<open>n_paths / 2\<close> variates
  (C++ division) from a fresh distribution on the engine's generator, returns the
  discounted mean of their antithetic payoffs (NaN when \<open>n_paths / 2 = 0\<close>), and
  leaves the generator where the last draw left it.
\<close>

theorem price_european_refines:
  "price_european N e S0 K T r sigma c n =
     (case draws N (nat (c_div n 2)) (nd_init N, rng e) of (zs, (_, g')) \<Rightarrow>
        (if c_div n 2 = 0 then NaN else Num (european_estimate S0 K T r sigma c zs), e\<lparr>rng := g'\<rparr>))"
proof (cases "c_div n 2" "0::int" rule: linorder_cases)
  case equal
  then show ?thesis by (simp add: price_european_def european_loop_draws Let_def split: prod.splits)
next
  case less
  then show ?thesis
    by (simp add: price_european_def european_loop_draws european_estimate_def Let_def split: prod.splits)
next
  case greater
  then show ?thesis
    by (auto simp: price_european_def european_loop_draws european_estimate_def Let_def
        dest!: length_draws_eq split: prod.splits)
qed

text \<open>
  C11. Antithetic symmetry: replacing the normal source by its reflection
  \<open>z \<mapsto> -z\<close> changes neither the estimate nor the final generator state.
\<close>

theorem price_european_antithetic:
  "price_european (reflect N) e S0 K T r sigma c n = price_european N e S0 K T r sigma c n"
  by (simp add: price_european_def european_loop_draws draws_reflect comp_def Let_def split: prod.splits)

text \<open>
  C13. With \<open>n_paths\<close> in \<open>{-1, 0, 1}\<close> the European estimator averages over no
  pair: it returns NaN (\<open>0.0 / 0\<close>) and does not advance the generator.
\<close>

theorem price_european_no_pairs:
  assumes "- 1 \<le> n" "n \<le> 1"
  shows "price_european N e S0 K T r sigma c n = (NaN, e)"
proof -
  have "c_div n 2 = 0" using assms by (simp add: c_div2_eq_0_iff)
  then show ?thesis by (simp add: price_european_def Let_def)
qed

theorem price_european_no_pairs_witness:
  "- 1 \<le> (1::int) \<and> (1::int) \<le> 1 \<and>
   price_european list_source \<lparr>rng = [1, 2]\<rparr> 100 100 1 0 1 True 1 = (NaN, \<lparr>rng = [1, 2]\<rparr>)"
  using price_european_no_pairs [of 1 list_source "\<lparr>rng = [1, 2]\<rparr>"] by simp

text \<open>
  C14. Refinement of \<open>price_asian\<close>: it consumes \<open>n_paths\<close> blocks of \<open>n_steps\<close>
  variates, and each path contributes the payoff of the arithmetic mean of its
  \<open>n_steps\<close> simulated prices (the initial price excluded, the sum divided by
  \<open>n_steps\<close>).
\<close>

theorem price_asian_refines:
  "price_asian N e S0 K T r sigma c n_steps n_paths =
     (case draw_paths N (nat n_paths) (nat n_steps) (nd_init N, rng e) of (zss, (_, g')) \<Rightarrow>
        (if n_paths = 0 then NaN
         else Num (exp (- r * T) *
           sum_list (map (\<lambda>zs. asian_payoff c K
             (sum_list (gbm_prices S0 ((r - 0.5 * sigma * sigma) * (T / real_of_int n_steps))
                                      (sigma * sqrt (T / real_of_int n_steps)) zs)) n_steps) zss)
           / real_of_int n_paths),
         e\<lparr>rng := g'\<rparr>))"
  by (simp add: price_asian_def asian_loop_draws Let_def split: prod.splits)

text \<open>
  C15. Exact GBM stepping: after \<open>n\<close> steps of size \<open>T / n\<close> the simulated price is
  \<open>S0 \<cdot> exp ((r - \<sigma>\<^sup>2/2) T + \<sigma> \<surd>(T/n) \<Sigma> z)\<close>, the exact GBM transition, with no
  discretisation drift.
\<close>

theorem gbm_exact_terminal:
  assumes "0 < n" "length zs = n"
  shows "last (S0 # gbm_prices S0 ((r - 0.5 * sigma * sigma) * (T / real n)) (sigma * sqrt (T / real n)) zs)
         = S0 * exp ((r - 0.5 * sigma * sigma) * T + sigma * sqrt (T / real n) * sum_list zs)"
proof -
  have "real (length zs) * ((r - 0.5 * sigma * sigma) * (T / real n)) = (r - 0.5 * sigma * sigma) * T"
    using assms by simp
  then show ?thesis by (simp only: last_gbm_prices)
qed

theorem gbm_exact_terminal_witness:
  "0 < (1::nat) \<and> length [0::real] = 1 \<and>
   last (1 # gbm_prices 1 ((0 - 0.5 * 1 * 1) * (1 / real (1::nat))) (1 * sqrt (1 / real (1::nat))) [0])
     = 1 * exp ((0 - 0.5 * 1 * 1) * 1 + 1 * sqrt (1 / real (1::nat)) * sum_list [0])"
  using gbm_exact_terminal [of 1 "[0]" 1 0 1 1] by simp

text \<open>
  C16. Knock-out correctness: the inner barrier loop reports a hit exactly when
  some price of the unbarriered simulated path breaches the barrier.
\<close>

theorem barrier_hit_iff:
  "fst (snd (barrier_steps N a b B d k S st)) \<longleftrightarrow>
   (\<exists>x \<in> set (gbm_prices S a b (fst (draws N k st))). breach d B x)"
  by (induction k arbitrary: S st) (auto simp: Let_def breach_def split: prod.splits)

text \<open>
  C17. Barrier monotonicity, path by path: the knock-out payoff of a path never
  exceeds the vanilla payoff at the terminal price of the same path without the
  barrier.
\<close>

theorem barrier_path_le_vanilla:
  "(case barrier_steps N a b B d k S0 st of (S, hit, _) \<Rightarrow> barrier_path_payoff c K S hit)
     \<le> payoff c K (last (S0 # gbm_prices S0 a b (fst (draws N k st))))"
proof -
  obtain S hit st' where eq: "barrier_steps N a b B d k S0 st = (S, hit, st')"
    by (cases "barrier_steps N a b B d k S0 st") auto
  obtain zs st'' where dr: "draws N k st = (zs, st'')" by (cases "draws N k st") simp
  show ?thesis
  proof (cases hit)
    case True
    then show ?thesis using eq by (simp add: barrier_path_payoff_def)
  next
    case False
    then show ?thesis
      using eq dr barrier_steps_survive [of N a b B d k S0 st S st' zs st'']
      by (simp add: barrier_path_payoff_def)
  qed
qed

text \<open>
  C21. With zero volatility the European estimator is deterministic: for
  \<open>n_paths \<ge> 2\<close> it returns the discounted payoff at the forward \<open>S0 e\<^sup>r\<^sup>T\<close>.
\<close>

theorem price_european_zero_vol:
  assumes "2 \<le> n"
  shows "fst (price_european N e S0 K T r 0 c n) = Num (exp (- r * T) * payoff c K (S0 * exp (r * T)))"
proof -
  have pos: "0 < c_div n 2" using assms by simp
  obtain zs st' where dr: "draws N (nat (c_div n 2)) (nd_init N, rng e) = (zs, st')"
    by (cases "draws N (nat (c_div n 2)) (nd_init N, rng e)") simp
  have len: "real (length zs) = real_of_int (c_div n 2)"
    using length_draws_eq [OF dr] pos by simp
  have "european_estimate S0 K T r 0 c zs = exp (- r * T) * payoff c K (S0 * exp (r * T))"
    using len pos by (simp add: european_estimate_def antithetic_payoff_zero_vol)
  then show ?thesis using dr pos
    by (simp add: price_european_refines split: prod.splits)
qed

theorem price_european_zero_vol_witness:
  "2 \<le> (2::int) \<and>
   fst (price_european list_source \<lparr>rng = [1]\<rparr> 100 90 1 0 0 True 2) = Num (exp (- 0 * 1) * payoff True 90 (100 * exp (0 * 1)))"
  using price_european_zero_vol [of 2 list_source "\<lparr>rng = [1]\<rparr>" 100 90 1 0 True] by simp

text \<open>
  C12. Put--call parity of the Monte Carlo estimator: on the same engine and for
  \<open>n_paths \<ge> 2\<close>, the call estimate minus the put estimate is the estimate of the
  discounted forward (a call struck at 0) minus the discounted strike, exactly.
\<close>

theorem mc_put_call_parity:
  assumes "2 \<le> n" "0 \<le> S0"
  shows "\<exists>c p f. fst (price_european N e S0 K T r sigma True n) = Num c \<and>
                 fst (price_european N e S0 K T r sigma False n) = Num p \<and>
                 fst (price_european N e S0 0 T r sigma True n) = Num f \<and>
                 c - p = f - K * exp (- r * T)"
proof -
  let ?k = "nat (c_div n 2)"
  have pos: "0 < c_div n 2" using assms by simp
  obtain zs st' where dr: "draws N ?k (nd_init N, rng e) = (zs, st')"
    by (cases "draws N ?k (nd_init N, rng e)") simp
  have len: "real (length zs) = real_of_int (c_div n 2)"
    using length_draws_eq [OF dr] pos by simp
  let ?a = "(r - 0.5 * sigma * sigma) * T" and ?b = "sigma * sqrt T"
  have "sum_list (map (antithetic_payoff S0 K ?a ?b True) zs) - sum_list (map (antithetic_payoff S0 K ?a ?b False) zs)
        = sum_list (map (antithetic_payoff S0 0 ?a ?b True) zs) - real (length zs) * K"
    by (simp add: sum_list_diff_real antithetic_payoff_call_put [OF assms(2)] sum_list_diff_real [symmetric])
  then have "european_estimate S0 K T r sigma True zs - european_estimate S0 K T r sigma False zs
             = european_estimate S0 0 T r sigma True zs - K * exp (- r * T)"
    unfolding european_estimate_def using len pos by (intro scaled_mean_diff) simp_all
  then show ?thesis using dr pos by (simp add: price_european_refines split: prod.splits)
qed

theorem mc_put_call_parity_witness:
  "2 \<le> (2::int) \<and> 0 \<le> (1::real) \<and>
   (\<exists>c p f. fst (price_european list_source \<lparr>rng = [0]\<rparr> 1 1 1 0 1 True 2) = Num c \<and>
            fst (price_european list_source \<lparr>rng = [0]\<rparr> 1 1 1 0 1 False 2) = Num p \<and>
            fst (price_european list_source \<lparr>rng = [0]\<rparr> 1 0 1 0 1 True 2) = Num f \<and>
            c - p = f - 1 * exp (- 0 * 1))"
  using mc_put_call_parity [of 2 1 list_source "\<lparr>rng = [0]\<rparr>" 1 1 0 1] by simp

section \<open>Stream consumption\<close>

text \<open>
  C30. Exact stream consumption of the barrier inner loop: a path with \<open>k\<close> steps
  takes from the generator as many variates as it simulates prices up to and
  including its first breach of the barrier (\<open>break\<close>, monte_carlo.hpp line 99),
  and all \<open>k\<close> when it never breaches.  So the generator position that the next
  path, and every later call on the engine, starts from depends on the knock-outs
  of this path.
\<close>

theorem barrier_steps_draws:
  "snd (snd (barrier_steps N a b B d k S st)) =
   snd (draws N (min k (Suc (length (takeWhile (\<lambda>x. \<not> breach d B x) (gbm_prices S a b (fst (draws N k st))))))) st)"
proof (induction k arbitrary: S st)
  case 0
  then show ?case by simp
next
  case (Suc k)
  obtain z st1 where z: "nd_draw N st = (z, st1)" by (cases "nd_draw N st") auto
  obtain zs st2 where zs: "draws N k st1 = (zs, st2)" by (cases "draws N k st1") auto
  let ?S' = "S * exp (a + b * z)"
  show ?case
  proof (cases "breach d B ?S'")
    case True
    then show ?thesis using z zs by (auto simp: breach_def Let_def split: if_splits)
  next
    case False
    have "snd (snd (barrier_steps N a b B d k ?S' st1)) =
          snd (draws N (min k (Suc (length (takeWhile (\<lambda>x. \<not> breach d B x) (gbm_prices ?S' a b zs))))) st1)"
      using Suc.IH [of ?S' st1] zs by simp
    then show ?thesis using False z zs
      by (auto simp: breach_def Let_def split: if_splits prod.splits)
  qed
qed

end
