(* ===== verification/SimulatePaths.thy ===== *)
theory SimulatePaths
  imports MonteCarlo
begin

text \<open>
  \<open>MonteCarloEngine::simulate_paths\<close> (src/cpp_engine/monte_carlo.hpp, lines
  114--138): a matrix of \<open>n_paths\<close> rows of \<open>n_steps + 1\<close> prices under the drift
  \<open>mu\<close>, row by row, each row starting at \<open>S0\<close>.  The failures of the source are
  values of \<open>sim_error\<close>: \<open>n_steps + 1\<close> overflows \<open>int\<close> for \<open>n_steps = INT_MAX\<close>;
  a negative size converted to \<open>size_t\<close> makes the \<open>std::vector\<close> constructor throw
  \<open>std::length_error\<close>; and for \<open>n_steps = -1\<close> the rows are empty, so the write
  \<open>paths[path][0] = S0\<close> is out of range.  The OpenMP \<open>parallel for\<close> over the rows
  draws from the one shared generator; the model runs the rows in index order, the
  only schedule without a data race (see the findings of the development).
\<close>

datatype sim_error = IntOverflow | LengthError | OutOfRangeWrite

primrec path_steps ::
  "('d, 'g) normal_dist \<Rightarrow> real \<Rightarrow> real \<Rightarrow> nat \<Rightarrow> real \<Rightarrow> 'd \<times> 'g \<Rightarrow> real list \<times> ('d \<times> 'g)" where
  "path_steps N drift diffusion 0 S st = ([], st)"
| "path_steps N drift diffusion (Suc k) S st =
     (case nd_draw N st of (z, st') \<Rightarrow>
        (let S' = S * exp (drift + diffusion * z)
         in case path_steps N drift diffusion k S' st' of (row, st'') \<Rightarrow> (S' # row, st'')))"

primrec paths_loop ::
  "('d, 'g) normal_dist \<Rightarrow> real \<Rightarrow> real \<Rightarrow> real \<Rightarrow> nat \<Rightarrow> nat \<Rightarrow> 'd \<times> 'g
   \<Rightarrow> real list list \<times> ('d \<times> 'g)" where
  "paths_loop N S0 drift diffusion n_steps 0 st = ([], st)"
| "paths_loop N S0 drift diffusion n_steps (Suc p) st =
     (case path_steps N drift diffusion n_steps S0 st of (row, st') \<Rightarrow>
        (case paths_loop N S0 drift diffusion n_steps p st' of (rows, st'') \<Rightarrow>
           ((S0 # row) # rows, st'')))"

definition int_max :: int where
  "int_max = 2147483647"

definition simulate_paths ::
  "('d, 'g) normal_dist \<Rightarrow> 'g mc_engine \<Rightarrow> real \<Rightarrow> real \<Rightarrow> real \<Rightarrow> real \<Rightarrow> int \<Rightarrow> int
   \<Rightarrow> (sim_error + real list list) \<times> 'g mc_engine" where
  "simulate_paths N e S0 mu sigma T n_steps n_paths =
     (if n_steps = int_max then (Inl IntOverflow, e)
      else if n_paths < 0 \<or> n_steps + 1 < 0 then (Inl LengthError, e)
      else if n_steps + 1 = 0 \<and> 0 < n_paths then (Inl OutOfRangeWrite, e)
      else
        let dt = T / real_of_int n_steps;
            drift = (mu - 0.5 * sigma * sigma) * dt;
            diffusion = sigma * sqrt dt
        in case paths_loop N S0 drift diffusion (nat n_steps) (nat n_paths) (nd_init N, rng e) of
             (paths, (_, g')) \<Rightarrow> (Inr paths, e\<lparr>rng := g'\<rparr>))"

section \<open>Lemmas\<close>

lemma path_steps_draws:
  "path_steps N a b k S st = (case draws N k st of (zs, st') \<Rightarrow> (gbm_prices S a b zs, st'))"
  by (induction k arbitrary: S st) (auto simp: Let_def split: prod.splits)

lemma paths_loop_draw_paths:
  "paths_loop N S0 a b k p st =
     (case draw_paths N p k st of (zss, st') \<Rightarrow> (map (\<lambda>zs. S0 # gbm_prices S0 a b zs) zss, st'))"
  by (induction p arbitrary: st) (auto simp: path_steps_draws split: prod.splits)

section \<open>Properties\<close>

text \<open>
  C18. Shape of the path matrix: for \<open>0 \<le> n_steps < INT_MAX\<close> and \<open>0 \<le> n_paths\<close>
  the result has \<open>n_paths\<close> rows of \<open>n_steps + 1\<close> prices each, every row starting
  at \<open>S0\<close> (the witness is the spec's \<open>5 \<times> 11\<close> example).
\<close>

theorem simulate_paths_shape:
  assumes "n_steps \<noteq> int_max" "0 \<le> n_paths" "0 \<le> n_steps"
  shows "\<exists>rows. fst (simulate_paths N e S0 mu sigma T n_steps n_paths) = Inr rows \<and>
           length rows = nat n_paths \<and> (\<forall>row \<in> set rows. length row = nat n_steps + 1 \<and> hd row = S0)"
proof -
  obtain zss st' where dp: "draw_paths N (nat n_paths) (nat n_steps) (nd_init N, rng e) = (zss, st')"
    by (cases "draw_paths N (nat n_paths) (nat n_steps) (nd_init N, rng e)") simp
  then show ?thesis
    using assms draw_paths_shape [OF dp]
    by (simp add: simulate_paths_def paths_loop_draw_paths Let_def split: prod.splits)
qed

theorem simulate_paths_shape_witness:
  "(10::int) \<noteq> int_max \<and> (0::int) \<le> 5 \<and> (0::int) \<le> 10 \<and>
   (\<exists>rows. fst (simulate_paths list_source \<lparr>rng = []\<rparr> 100 (1/20) (1/5) 1 10 5) = Inr rows \<and>
      length rows = nat 5 \<and> (\<forall>row \<in> set rows. length row = nat 10 + 1 \<and> hd row = 100))"
proof -
  have h: "(10::int) \<noteq> int_max" "(0::int) \<le> 5" "(0::int) \<le> 10" by (simp_all add: int_max_def)
  show ?thesis using simulate_paths_shape [OF h, of list_source "\<lparr>rng = []\<rparr>" 100 "1/20" "1/5" 1] h by simp
qed

text \<open>
  C19. Refinement: each row is \<open>S0\<close> followed by the exact GBM prices along one
  block of \<open>n_steps\<close> variates, the rows consuming consecutive blocks.
\<close>

theorem simulate_paths_refines:
  assumes "n_steps \<noteq> int_max" "0 \<le> n_paths" "0 \<le> n_steps"
  shows "simulate_paths N e S0 mu sigma T n_steps n_paths =
     (case draw_paths N (nat n_paths) (nat n_steps) (nd_init N, rng e) of (zss, (_, g')) \<Rightarrow>
        (Inr (map (\<lambda>zs. S0 # gbm_prices S0 ((mu - 0.5 * sigma * sigma) * (T / real_of_int n_steps))
                                         (sigma * sqrt (T / real_of_int n_steps)) zs) zss),
         e\<lparr>rng := g'\<rparr>))"
  using assms by (simp add: simulate_paths_def paths_loop_draw_paths Let_def split: prod.splits)

theorem simulate_paths_refines_witness:
  "(1::int) \<noteq> int_max \<and> (0::int) \<le> 1 \<and> (0::int) \<le> 1 \<and>
   simulate_paths list_source \<lparr>rng = [0]\<rparr> 100 0 1 1 1 1 =
     (case draw_paths list_source (nat 1) (nat 1) (nd_init list_source, rng \<lparr>rng = [0]\<rparr>) of (zss, (_, g')) \<Rightarrow>
        (Inr (map (\<lambda>zs. 100 # gbm_prices 100 ((0 - 0.5 * 1 * 1) * (1 / real_of_int 1))
                                         (1 * sqrt (1 / real_of_int 1)) zs) zss),
         \<lparr>rng = [0]\<rparr>\<lparr>rng := g'\<rparr>))"
proof -
  have h: "(1::int) \<noteq> int_max" "(0::int) \<le> 1" "(0::int) \<le> 1" by (simp_all add: int_max_def)
  from simulate_paths_refines [OF h, of list_source "\<lparr>rng = [0]\<rparr>" 100 0 1 1] h show ?thesis
    by blast
qed

end
