(* ===== verification/Engine.thy ===== *)
theory Engine
  imports SimulatePaths
begin

text \<open>
  The engine object as the spec's state machine: one state (the generator) and one
  transition per public method call, each consuming variates.  \<open>mc_call\<close> lists the
  four methods of \<open>MonteCarloEngine\<close> with their arguments (the methods that the
  binding layer, src/cpp_engine/bindings.cpp, exposes); \<open>mc_step\<close> dispatches a call
  to its model and \<open>mc_run\<close> performs a sequence of calls on one engine, returning
  the outputs in call order.
\<close>

datatype mc_call =
    PriceEuropean real real real real real bool int
  | PriceAsian real real real real real bool int int
  | PriceBarrier real real real real real real bool bool int int
  | SimulatePaths real real real real int int

datatype mc_output = PriceOut dresult | PathsOut "sim_error + real list list"

fun mc_step :: "('d, 'g) normal_dist \<Rightarrow> 'g mc_engine \<Rightarrow> mc_call \<Rightarrow> mc_output \<times> 'g mc_engine" where
  "mc_step N e (PriceEuropean S0 K T r sigma is_call n_paths) =
     (case price_european N e S0 K T r sigma is_call n_paths of (x, e') \<Rightarrow> (PriceOut x, e'))"
| "mc_step N e (PriceAsian S0 K T r sigma is_call n_steps n_paths) =
     (case price_asian N e S0 K T r sigma is_call n_steps n_paths of (x, e') \<Rightarrow> (PriceOut x, e'))"
| "mc_step N e (PriceBarrier S0 K B T r sigma is_call is_down_and_out n_steps n_paths) =
     (case price_barrier N e S0 K B T r sigma is_call is_down_and_out n_steps n_paths of
        (x, e') \<Rightarrow> (PriceOut x, e'))"
| "mc_step N e (SimulatePaths S0 mu sigma T n_steps n_paths) =
     (case simulate_paths N e S0 mu sigma T n_steps n_paths of (x, e') \<Rightarrow> (PathsOut x, e'))"

fun mc_run :: "('d, 'g) normal_dist \<Rightarrow> 'g mc_engine \<Rightarrow> mc_call list \<Rightarrow> mc_output list \<times> 'g mc_engine" where
  "mc_run N e [] = ([], e)"
| "mc_run N e (c # cs) =
     (case mc_step N e c of (out, e') \<Rightarrow> (case mc_run N e' cs of (outs, e'') \<Rightarrow> (out # outs, e'')))"

section \<open>Lemmas\<close>

lemma length_mc_run [simp]: "length (fst (mc_run N e cs)) = length cs"
  by (induction cs arbitrary: e) (simp_all add: case_prod_beta)

end
