(* ===== verification/NormalDist.thy ===== *)
theory NormalDist
  imports Prelude
begin

text \<open>
  The standard normal functions of \<open>BlackScholesEngine\<close>
  (src/cpp_engine/black_scholes.hpp): \<open>norm_cdf\<close>, the Abramowitz--Stegun rational
  approximation of the cumulative distribution, and \<open>norm_pdf\<close>, the density.  The
  approximation is modelled literally, with its five coefficients and the sign
  convention of the source.  The lemmas show that it is antisymmetric about \<open>1/2\<close>
  everywhere but at \<open>0\<close>, where the coefficients sum to \<open>0.999999999\<close> rather than
  \<open>1\<close> and \<open>norm_cdf 0\<close> is \<open>1/2 + 5 \<cdot> 10\<^sup>-\<^sup>1\<^sup>0\<close>; they bound both functions,
  and show that \<open>norm_cdf\<close> is a nondecreasing function into \<open>(0, 1)\<close>.
\<close>

section \<open>Definitions\<close>

definition cdf_poly :: "real \<Rightarrow> real" where
  "cdf_poly t =
     (let a1 = 0.254829592; a2 = -0.284496736; a3 = 1.421413741;
          a4 = -1.453152027; a5 = 1.061405429
      in (((((a5 * t + a4) * t) + a3) * t + a2) * t + a1) * t)"

definition norm_cdf :: "real \<Rightarrow> real" where
  "norm_cdf x0 =
     (let p = 0.3275911;
          sign = (if x0 < 0 then - 1 else 1 :: real);
          x = \<bar>x0\<bar> / sqrt 2;
          t = 1 / (1 + p * x);
          y = 1 - cdf_poly t * exp (- x * x)
      in 0.5 * (1 + sign * y))"

definition norm_pdf :: "real \<Rightarrow> real" where
  "norm_pdf x = (1 / sqrt (2 * pi)) * exp (- 0.5 * x * x)"

section \<open>The tail term\<close>

text \<open>
  \<open>cdf_tail x\<close> is the quantity \<open>y\<close> of the source for the argument \<open>x\<close>; it depends
  on \<open>\<bar>x\<bar>\<close> only, which is what makes the approximation antisymmetric.
\<close>

definition cdf_tail :: "real \<Rightarrow> real" where
  "cdf_tail x0 = 1 - cdf_poly (1 / (1 + 0.3275911 * (\<bar>x0\<bar> / sqrt 2))) * exp (- (\<bar>x0\<bar> / sqrt 2) * (\<bar>x0\<bar> / sqrt 2))"

lemma norm_cdf_tail: "norm_cdf x = 0.5 * (1 + (if x < 0 then - 1 else 1) * cdf_tail x)"
  by (simp add: norm_cdf_def cdf_tail_def Let_def)

lemma cdf_tail_uminus [simp]: "cdf_tail (- x) = cdf_tail x"
  by (simp add: cdf_tail_def)

lemma cdf_tail_zero: "cdf_tail 0 = 1 / 10 ^ 9"
  by (simp add: cdf_tail_def cdf_poly_def Let_def)

lemma norm_cdf_zero: "norm_cdf 0 = 1 / 2 + 1 / (2 * 10 ^ 9)"
  by (simp add: norm_cdf_tail cdf_tail_zero)

text \<open>\<open>N(x) + N(-x)\<close> is \<open>1\<close> exactly, except at \<open>0\<close>.\<close>

lemma norm_cdf_sum: "norm_cdf x + norm_cdf (- x) = (if x = 0 then 1 + 1 / 10 ^ 9 else 1)"
proof (cases x "0::real" rule: linorder_cases)
  case equal
  then show ?thesis by (simp add: norm_cdf_zero)
next
  case less
  then show ?thesis by (simp add: norm_cdf_tail field_simps)
next
  case greater
  then show ?thesis by (simp add: norm_cdf_tail field_simps)
qed

lemma norm_cdf_uminus: "x \<noteq> 0 \<Longrightarrow> norm_cdf (- x) = 1 - norm_cdf x"
  using norm_cdf_sum [of x] by simp

section \<open>Bounds\<close>

lemma abs_horner_step:
  "\<bar>t\<bar> \<le> 1 \<Longrightarrow> \<bar>u\<bar> \<le> B \<Longrightarrow> \<bar>a\<bar> \<le> A \<Longrightarrow> \<bar>u * t + a\<bar> \<le> B + (A :: real)"
proof -
  assume t: "\<bar>t\<bar> \<le> 1" and u: "\<bar>u\<bar> \<le> B" and a: "\<bar>a\<bar> \<le> A"
  have "\<bar>u\<bar> * \<bar>t\<bar> \<le> \<bar>u\<bar> * 1"
    by (rule mult_left_mono) (use t in simp_all)
  then have "\<bar>u * t\<bar> \<le> B" using u by (simp add: abs_mult)
  then show ?thesis using a by linarith
qed

lemma cdf_poly_abs_le: "\<bar>t\<bar> \<le> 1 \<Longrightarrow> \<bar>cdf_poly t\<bar> \<le> 5"
proof -
  assume t: "\<bar>t\<bar> \<le> 1"
  let ?h = "((((1.061405429 * t + -1.453152027) * t) + 1.421413741) * t + -0.284496736) * t + (0.254829592::real)"
  have "\<bar>?h\<bar> * \<bar>t\<bar> \<le> \<bar>?h\<bar> * 1"
    by (rule mult_left_mono) (use t in simp_all)
  then have "\<bar>?h * t\<bar> \<le> \<bar>?h\<bar>" by (simp add: abs_mult)
  also have "\<dots> \<le> 1.061405429 + 1.453152027 + 1.421413741 + 0.284496736 + 0.254829592"
    using t by (intro abs_horner_step) simp_all
  also have "\<dots> \<le> (5::real)" by simp
  finally have "\<bar>?h * t\<bar> \<le> 5" .
  then show ?thesis by (simp add: cdf_poly_def Let_def)
qed

lemma cdf_tail_abs_le: "\<bar>cdf_tail x\<bar> \<le> 6"
proof -
  define z where "z = \<bar>x\<bar> / sqrt 2"
  have z: "0 \<le> z" by (simp add: z_def)
  define t where "t = 1 / (1 + 0.3275911 * z)"
  have "1 \<le> 1 + 0.3275911 * z" using z by simp
  then have "\<bar>t\<bar> \<le> 1" by (simp add: t_def)
  then have p: "\<bar>cdf_poly t\<bar> \<le> 5" by (rule cdf_poly_abs_le)
  have e: "exp (- z * z) \<le> 1" using z by simp
  have "\<bar>cdf_poly t * exp (- z * z)\<bar> \<le> 5 * 1"
    unfolding abs_mult by (rule mult_mono) (use p e in simp_all)
  moreover have "cdf_tail x = 1 - cdf_poly t * exp (- z * z)"
    by (simp only: cdf_tail_def t_def z_def)
  ultimately show ?thesis by linarith
qed

lemma norm_cdf_abs_le: "\<bar>norm_cdf x\<bar> \<le> 4"
  using cdf_tail_abs_le [of x] by (auto simp: norm_cdf_tail abs_le_iff)

lemma norm_pdf_pos [simp]: "0 < norm_pdf x"
  by (simp add: norm_pdf_def)

lemma norm_pdf_uminus [simp]: "norm_pdf (- x) = norm_pdf x"
  by (simp add: norm_pdf_def)

lemma norm_pdf_le_half: "norm_pdf x \<le> 1 / 2"
proof -
  have "exp (- 0.5 * x * x) \<le> 1" by simp
  moreover have "1 / sqrt (2 * pi) \<le> 1 / 2"
    using sqrt_2pi_ge_2 by (simp add: divide_le_eq)
  ultimately have "(1 / sqrt (2 * pi)) * exp (- 0.5 * x * x) \<le> (1 / 2) * 1"
    by (intro mult_mono) simp_all
  then show ?thesis by (simp add: norm_pdf_def)
qed

lemma norm_pdf_zero: "norm_pdf 0 = 1 / sqrt (2 * pi)"
  by (simp add: norm_pdf_def)

lemma norm_pdf_zero_ge: "1 / 3 \<le> norm_pdf 0"
  using sqrt_2pi_le_3 by (simp add: norm_pdf_zero divide_le_eq)


section \<open>The polynomial factor and the tail\<close>

lemma cdf_poly_factor:
  "cdf_poly t = t * (0.254829592 + t * (- 0.284496736 + t * (1.421413741 + t * (- 1.453152027 + t * 1.061405429))))"
  by (simp add: cdf_poly_def Let_def algebra_simps)

lemma cdf_poly_pos:
  assumes t0: "0 < t"
  shows "0 < cdf_poly t"
proof -
  have q1: "0 < 1/2 * t * t - 0.284496736 * t + 0.254829592"
  proof -
    have "0 \<le> (t - 3/10)^2" by simp
    moreover have "0 \<le> 0.015503264 * t" using t0 by simp
    ultimately show ?thesis by (simp add: power2_eq_square algebra_simps)
  qed
  have q2: "0 \<le> 1.061405429 * t * t - 1.453152027 * t + 0.921413741"
  proof -
    have "0 \<le> 1.061405429 * (t - 7/10)^2" by simp
    moreover have "0 \<le> 0.0327155736 * t" using t0 by simp
    ultimately show ?thesis by (simp add: power2_eq_square algebra_simps)
  qed
  have "0 \<le> t * t * (1.061405429 * t * t - 1.453152027 * t + 0.921413741)"
    using q2 by simp
  with q1 have "0 < 0.254829592 + t * (- 0.284496736 + t * (1.421413741 + t * (- 1.453152027 + t * 1.061405429)))"
    by (simp add: algebra_simps)
  with t0 show ?thesis by (simp add: cdf_poly_factor)
qed

lemma cdf_poly_le:
  assumes t0: "0 \<le> t" and t1: "t \<le> 1"
  shows "cdf_poly t \<le> 0.999999999"
proof -
  have c: "t * t * t \<le> 1" using t0 t1 by (simp add: mult_le_one)
  have "0 \<le> t * t" "0 \<le> t * t * t * t" using t0 by simp_all
  have lin: "\<And>a b c d :: real. 0 \<le> a \<Longrightarrow> 0 \<le> b \<Longrightarrow> c \<le> 1 \<Longrightarrow> 0 \<le> d \<Longrightarrow>
      0 \<le> 0.999999999 + 0.745170407 * a + 1.029667143 * b - 0.391746598 * c + 1.061405429 * d"
    by (simp add: field_simps)
  with c t0 have "0 \<le> 0.999999999 + 0.745170407 * t + 1.029667143 * (t * t) - 0.391746598 * (t * t * t)
                 + 1.061405429 * (t * t * t * t)"
    by (metis \<open>0 \<le> t * t\<close> \<open>0 \<le> t * t * t * t\<close>)
  moreover have "0 \<le> 1 - t" using t1 by simp
  ultimately have "0 \<le> (1 - t) * (0.999999999 + 0.745170407 * t + 1.029667143 * t * t
                    - 0.391746598 * t * t * t + 1.061405429 * t * t * t * t)"
    by simp
  moreover have "cdf_poly t = 0.999999999 - (1 - t) * (0.999999999 + 0.745170407 * t + 1.029667143 * t * t
                    - 0.391746598 * t * t * t + 1.061405429 * t * t * t * t)"
    unfolding cdf_poly_def Let_def by (simp add: field_simps)
  ultimately show ?thesis by linarith
qed

lemma cdf_poly_deriv:
  "(cdf_poly has_real_derivative
     (0.254829592 - 0.568993472 * t + 4.264241223 * t * t - 5.812608108 * t * t * t
      + 5.307027145 * t * t * t * t)) (at t)"
  unfolding cdf_poly_def Let_def
  by (auto intro!: derivative_eq_intros simp: algebra_simps)

lemma cdf_poly_deriv_nonneg:
  assumes t0: "0 \<le> t"
  shows "0 \<le> 0.254829592 - 0.568993472 * (t::real) + 4.264241223 * t * t - 5.812608108 * t * t * t
             + 5.307027145 * t * t * t * t"
proof -
  have q1: "0 \<le> t * t - 0.568993472 * t + 0.254829592"
  proof -
    have "0 \<le> (t - 3/10)^2" by simp
    moreover have "0 \<le> 0.031006528 * t" using t0 by simp
    ultimately show ?thesis by (simp add: power2_eq_square algebra_simps)
  qed
  have q2: "0 \<le> 5.307027145 * t * t - 5.812608108 * t + 3.264241223"
  proof -
    have "0 \<le> 5.307027145 * (t - 11/20)^2" by simp
    moreover have "0 \<le> 0.0252218255 * t" using t0 by simp
    ultimately show ?thesis by (simp add: power2_eq_square algebra_simps)
  qed
  have "0 \<le> t * t * (5.307027145 * t * t - 5.812608108 * t + 3.264241223)"
    using q2 by simp
  with q1 show ?thesis by (simp add: algebra_simps)
qed

lemma cdf_poly_mono:
  assumes "0 \<le> s" "s \<le> t"
  shows "cdf_poly s \<le> cdf_poly t"
  using assms
  by (intro DERIV_nonneg_imp_nondecreasing [OF \<open>s \<le> t\<close>])
     (auto intro!: exI cdf_poly_deriv cdf_poly_deriv_nonneg)

lemma cdf_tail_arg:
  "cdf_tail x = 1 - cdf_poly (1 / (1 + 0.3275911 * (\<bar>x\<bar> / sqrt 2))) * exp (- ((\<bar>x\<bar> / sqrt 2)\<^sup>2))"
  by (simp add: cdf_tail_def power2_eq_square)

lemma inv_one_plus: "0 \<le> (a::real) \<Longrightarrow> 0 < 1 / (1 + a) \<and> 1 / (1 + a) \<le> 1"
  by simp

lemma inv_one_plus_mono: "0 \<le> (a::real) \<Longrightarrow> a \<le> b \<Longrightarrow> 1 / (1 + b) \<le> 1 / (1 + a)"
  by (simp add: frac_le)

lemma cdf_t_range: "0 < 1 / (1 + 0.3275911 * (\<bar>x\<bar> / sqrt 2)) \<and> 1 / (1 + 0.3275911 * (\<bar>x\<bar> / sqrt 2)) \<le> (1::real)"
  by (rule inv_one_plus) simp

lemma cdf_tail_bounds: "1 / 10 ^ 9 \<le> cdf_tail x \<and> cdf_tail x < 1"
proof -
  define t where "t = 1 / (1 + 0.3275911 * (\<bar>x\<bar> / sqrt 2))"
  have t0: "0 < t" and t1: "t \<le> 1" using cdf_t_range [of x] by (simp_all add: t_def)
  define e where "e = exp (- ((\<bar>x\<bar> / sqrt 2)\<^sup>2))"
  have e0: "0 < e" and e1: "e \<le> 1" by (simp_all add: e_def)
  have "cdf_poly t * e \<le> 0.999999999 * 1"
    using cdf_poly_le [of t] cdf_poly_pos [OF t0] t0 t1 e0 e1 by (intro mult_mono) simp_all
  moreover have "0 < cdf_poly t * e" using cdf_poly_pos [OF t0] e0 by simp
  moreover have "cdf_tail x = 1 - cdf_poly t * e" by (simp add: cdf_tail_arg t_def e_def)
  ultimately show ?thesis by simp
qed

lemma cdf_tail_mono:
  assumes "\<bar>x\<bar> \<le> \<bar>y\<bar>"
  shows "cdf_tail x \<le> cdf_tail y"
proof -
  define tx where "tx = 1 / (1 + 0.3275911 * (\<bar>x\<bar> / sqrt 2))"
  define ty where "ty = 1 / (1 + 0.3275911 * (\<bar>y\<bar> / sqrt 2))"
  have ty0: "0 < ty" using cdf_t_range [of y] by (simp add: ty_def)
  have "ty \<le> tx" unfolding tx_def ty_def
    by (rule inv_one_plus_mono) (simp_all add: assms divide_right_mono)
  then have p: "cdf_poly ty \<le> cdf_poly tx" using ty0 by (intro cdf_poly_mono) simp_all
  have "(\<bar>x\<bar> / sqrt 2)\<^sup>2 \<le> (\<bar>y\<bar> / sqrt 2)\<^sup>2"
    using assms by (intro power_mono divide_right_mono) simp_all
  then have e: "exp (- ((\<bar>y\<bar> / sqrt 2)\<^sup>2)) \<le> exp (- ((\<bar>x\<bar> / sqrt 2)\<^sup>2))" by simp
  have "cdf_poly ty * exp (- ((\<bar>y\<bar> / sqrt 2)\<^sup>2)) \<le> cdf_poly tx * exp (- ((\<bar>x\<bar> / sqrt 2)\<^sup>2))"
    using p e cdf_poly_pos [OF ty0] by (intro mult_mono) simp_all
  then show ?thesis by (simp add: cdf_tail_arg tx_def ty_def)
qed

section \<open>Properties\<close>

text \<open>
  C25. The approximation is a distribution function's value: \<open>norm_cdf x\<close> lies
  strictly between 0 and 1 for every argument, because the polynomial factor
  \<open>cdf_poly t\<close> is positive and at most \<open>0.999999999\<close> on \<open>(0, 1]\<close>.
\<close>

theorem norm_cdf_range: "0 < norm_cdf x \<and> norm_cdf x < 1"
  using cdf_tail_bounds [of x] by (simp add: norm_cdf_tail)

text \<open>
  C26. The approximation is nondecreasing, as a distribution function is: the
  polynomial factor is increasing on \<open>[0, 1]\<close> (its derivative is a sum of
  positive quadratics) and the Gaussian factor decreases in \<open>\<bar>x\<bar>\<close>.
\<close>

theorem norm_cdf_mono:
  assumes "x \<le> y"
  shows "norm_cdf x \<le> norm_cdf y"
proof (cases "0 \<le> x")
  case True
  then have "cdf_tail x \<le> cdf_tail y" using assms by (intro cdf_tail_mono) simp
  then show ?thesis using True assms by (simp add: norm_cdf_tail)
next
  case False
  show ?thesis
  proof (cases "y < 0")
    case True
    then have "cdf_tail y \<le> cdf_tail x" using assms by (intro cdf_tail_mono) simp
    then show ?thesis using True False by (simp add: norm_cdf_tail)
  next
    case False
    then show ?thesis using \<open>\<not> 0 \<le> x\<close> cdf_tail_bounds [of x] cdf_tail_bounds [of y]
      by (simp add: norm_cdf_tail)
  qed
qed

theorem norm_cdf_mono_witness: "(-1::real) \<le> 2 \<and> norm_cdf (-1) \<le> norm_cdf 2"
  using norm_cdf_mono [of "-1" 2] by simp

end
