(* ===== verification/BlackScholes.thy ===== *)
theory BlackScholes
  imports NormalDist
begin

text \<open>
  The closed-form part of \<open>BlackScholesEngine\<close> (src/cpp_engine/black_scholes.hpp):
  \<open>d1\<close>, \<open>d2\<close>, the call and put prices and the Greeks \<open>delta\<close>, \<open>gamma\<close>, \<open>vega\<close>,
  \<open>theta_call\<close> and \<open>rho_call\<close>, each a definition with the body of the static method
  of the same name, with \<open>norm_cdf\<close> and \<open>norm_pdf\<close> from \<open>NormalDist\<close>.  The lemmas
  state put--call parity exactly (including the defect at \<open>d1 = 0\<close> or \<open>d2 = 0\<close>
  that the approximation of \<open>N\<close> introduces), delta parity, homogeneity of the
  prices, positivity of gamma and vega, and two identities that tie the Greeks
  together: the Black--Scholes equation satisfied by theta, gamma and delta, and
  rho expressed through delta and the price.
\<close>

section \<open>Definitions\<close>

definition d1 :: "real \<Rightarrow> real \<Rightarrow> real \<Rightarrow> real \<Rightarrow> real \<Rightarrow> real" where
  "d1 S K T r sigma = (ln (S / K) + (r + 0.5 * sigma * sigma) * T) / (sigma * sqrt T)"

definition d2 :: "real \<Rightarrow> real \<Rightarrow> real \<Rightarrow> real \<Rightarrow> real \<Rightarrow> real" where
  "d2 S K T r sigma = d1 S K T r sigma - sigma * sqrt T"

definition call_price :: "real \<Rightarrow> real \<Rightarrow> real \<Rightarrow> real \<Rightarrow> real \<Rightarrow> real" where
  "call_price S K T r sigma =
     (let d1_val = d1 S K T r sigma;
          d2_val = d2 S K T r sigma
      in S * norm_cdf d1_val - K * exp (- r * T) * norm_cdf d2_val)"

definition put_price :: "real \<Rightarrow> real \<Rightarrow> real \<Rightarrow> real \<Rightarrow> real \<Rightarrow> real" where
  "put_price S K T r sigma =
     (let d1_val = d1 S K T r sigma;
          d2_val = d2 S K T r sigma
      in K * exp (- r * T) * norm_cdf (- d2_val) - S * norm_cdf (- d1_val))"

definition delta :: "real \<Rightarrow> real \<Rightarrow> real \<Rightarrow> real \<Rightarrow> real \<Rightarrow> bool \<Rightarrow> real" where
  "delta S K T r sigma is_call =
     (let d1_val = d1 S K T r sigma
      in if is_call then norm_cdf d1_val else norm_cdf d1_val - 1)"

definition gamma :: "real \<Rightarrow> real \<Rightarrow> real \<Rightarrow> real \<Rightarrow> real \<Rightarrow> real" where
  "gamma S K T r sigma =
     (let d1_val = d1 S K T r sigma
      in norm_pdf d1_val / (S * sigma * sqrt T))"

definition vega :: "real \<Rightarrow> real \<Rightarrow> real \<Rightarrow> real \<Rightarrow> real \<Rightarrow> real" where
  "vega S K T r sigma =
     (let d1_val = d1 S K T r sigma
      in S * norm_pdf d1_val * sqrt T)"

definition theta_call :: "real \<Rightarrow> real \<Rightarrow> real \<Rightarrow> real \<Rightarrow> real \<Rightarrow> real" where
  "theta_call S K T r sigma =
     (let d1_val = d1 S K T r sigma;
          d2_val = d2 S K T r sigma;
          term1 = - (S * norm_pdf d1_val * sigma) / (2 * sqrt T);
          term2 = - r * K * exp (- r * T) * norm_cdf d2_val
      in (term1 + term2) / 365)"

definition rho_call :: "real \<Rightarrow> real \<Rightarrow> real \<Rightarrow> real \<Rightarrow> real \<Rightarrow> real" where
  "rho_call S K T r sigma =
     (let d2_val = d2 S K T r sigma
      in K * T * exp (- r * T) * norm_cdf d2_val / 100)"

lemmas bs_defs [pricing_simps] =
  call_price_def put_price_def delta_def gamma_def vega_def theta_call_def rho_call_def

section \<open>Parity\<close>

lemma call_minus_put:
  "call_price S K T r sigma - put_price S K T r sigma =
     S * (norm_cdf (d1 S K T r sigma) + norm_cdf (- d1 S K T r sigma))
     - K * exp (- r * T) * (norm_cdf (d2 S K T r sigma) + norm_cdf (- d2 S K T r sigma))"
  by (simp add: call_price_def put_price_def Let_def algebra_simps)

text \<open>
  Parity holds up to the defect of the approximation at \<open>0\<close>: a term \<open>S \<cdot> 10\<^sup>-\<^sup>9\<close>
  when \<open>d1 = 0\<close> and \<open>- K e\<^sup>-\<^sup>r\<^sup>T \<cdot> 10\<^sup>-\<^sup>9\<close> when \<open>d2 = 0\<close>.
\<close>

lemma put_call_parity_exact:
  "call_price S K T r sigma - put_price S K T r sigma =
     S - K * exp (- r * T)
     + (if d1 S K T r sigma = 0 then S / 10 ^ 9 else 0)
     - (if d2 S K T r sigma = 0 then K * exp (- r * T) / 10 ^ 9 else 0)"
  by (simp add: call_minus_put norm_cdf_sum algebra_simps)

section \<open>Homogeneity\<close>

lemma d1_scale: "c \<noteq> 0 \<Longrightarrow> d1 (c * S) (c * K) T r sigma = d1 S K T r sigma"
  by (simp add: d1_def)

lemma d2_scale: "c \<noteq> 0 \<Longrightarrow> d2 (c * S) (c * K) T r sigma = d2 S K T r sigma"
  by (simp add: d2_def d1_scale)

section \<open>Bounds\<close>

lemma call_price_abs_le:
  assumes "0 \<le> S" "0 \<le> K"
  shows "\<bar>call_price S K T r sigma\<bar> \<le> S * 4 + K * exp (- r * T) * 4"
proof -
  let ?a = "norm_cdf (d1 S K T r sigma)" and ?b = "norm_cdf (d2 S K T r sigma)"
  have "\<bar>call_price S K T r sigma\<bar> \<le> \<bar>S * ?a\<bar> + \<bar>K * exp (- r * T) * ?b\<bar>"
    unfolding call_price_def Let_def by (rule abs_triangle_ineq4)
  also have "\<bar>S * ?a\<bar> \<le> S * 4"
    using assms norm_cdf_abs_le [of "d1 S K T r sigma"] by (simp add: abs_mult mult_left_mono)
  also have "\<bar>K * exp (- r * T) * ?b\<bar> \<le> K * exp (- r * T) * 4"
    using assms norm_cdf_abs_le [of "d2 S K T r sigma"] by (simp add: abs_mult mult_left_mono)
  finally show ?thesis by simp
qed

section \<open>Properties\<close>

text \<open>
  C1. Put--call parity: wherever neither \<open>d1\<close> nor \<open>d2\<close> is zero, the call price
  minus the put price is exactly the spot minus the discounted strike.
\<close>

theorem put_call_parity:
  assumes "d1 S K T r sigma \<noteq> 0" and "d2 S K T r sigma \<noteq> 0"
  shows "call_price S K T r sigma - put_price S K T r sigma = S - K * exp (- r * T)"
  using assms by (simp add: put_call_parity_exact)

theorem put_call_parity_witness:
  "d1 1 1 1 0 1 \<noteq> 0 \<and> d2 1 1 1 0 1 \<noteq> 0 \<and>
   call_price 1 1 1 0 1 - put_price 1 1 1 0 1 = 1 - 1 * exp (- 0 * 1)"
proof -
  have h: "d1 1 1 1 0 1 \<noteq> 0" "d2 1 1 1 0 1 \<noteq> 0" by (simp_all add: d1_def d2_def)
  show ?thesis using put_call_parity [OF h] h by simp
qed

text \<open>
  C2. Parity fails by more than the tolerance \<open>10\<^sup>-\<^sup>9\<close> at a valid contract where
  \<open>d2 = 0\<close> (\<open>S = K = 100\<close>, \<open>T = 1\<close>, \<open>r = 1/8\<close>, \<open>sigma = 1/2\<close>, all exact
  in binary): there \<open>norm_cdf 0 + norm_cdf (-0)\<close> is \<open>1 + 10\<^sup>-\<^sup>9\<close>, and the
  defect is \<open>100 e\<^sup>-\<^sup>1\<^sup>/\<^sup>8 \<cdot> 10\<^sup>-\<^sup>9\<close>.
\<close>

theorem put_call_parity_defect:
  "1 / 10 ^ 9 \<le> \<bar>call_price 100 100 1 (1/8) (1/2) - put_price 100 100 1 (1/8) (1/2)
                  - (100 - 100 * exp (- (1/8) * 1))\<bar>"
proof -
  have "d1 100 100 1 (1/8) (1/2) = 1/2" "d2 100 100 1 (1/8) (1/2) = 0"
    by (simp_all add: d1_def d2_def)
  then have "call_price 100 100 1 (1/8) (1/2) - put_price 100 100 1 (1/8) (1/2)
               - (100 - 100 * exp (- (1/8) * 1)) = - (100 * exp (- (1/8)) / 10 ^ 9)"
    by (simp add: put_call_parity_exact)
  moreover have "1 - 1/8 \<le> exp (- (1/8) :: real)"
    using exp_ge_add_one_self [of "- (1/8) :: real"] by simp
  ultimately show ?thesis by simp
qed

text \<open>
  C3. Delta parity: the call delta exceeds the put delta by exactly one, for every
  input.
\<close>

theorem delta_parity: "delta S K T r sigma True - delta S K T r sigma False = 1"
  by (simp add: delta_def Let_def)

text \<open>
  C4. The Greeks satisfy the Black--Scholes equation: for positive spot, volatility
  and maturity, the annualised theta (\<open>365 \<cdot> theta_call\<close>), gamma and the call delta
  satisfy \<open>\<Theta> + \<sigma>\<^sup>2 S\<^sup>2 \<Gamma> / 2 + r S \<Delta> - r C = 0\<close> with the call price \<open>C\<close>.
\<close>

theorem bs_pde:
  assumes "0 < S" "0 < sigma" "0 < T"
  shows "365 * theta_call S K T r sigma + sigma\<^sup>2 * S\<^sup>2 * gamma S K T r sigma / 2
         + r * S * delta S K T r sigma True - r * call_price S K T r sigma = 0"
  using assms
  by (simp add: theta_call_def gamma_def delta_def call_price_def Let_def power2_eq_square field_simps)

theorem bs_pde_witness:
  "0 < (1::real) \<and>
   365 * theta_call 1 1 1 0 1 + 1\<^sup>2 * 1\<^sup>2 * gamma 1 1 1 0 1 / 2
     + 0 * 1 * delta 1 1 1 0 1 True - 0 * call_price 1 1 1 0 1 = 0"
  using bs_pde [of 1 1 1 1 0] by simp

text \<open>
  C22. Vega is gamma scaled by \<open>S\<^sup>2 \<sigma> T\<close> for positive spot, volatility and
  maturity.
\<close>

theorem vega_gamma:
  assumes "0 < S" "0 < sigma" "0 < T"
  shows "vega S K T r sigma = S\<^sup>2 * sigma * T * gamma S K T r sigma"
  using assms by (simp add: vega_def gamma_def Let_def power2_eq_square field_simps)

theorem vega_gamma_witness:
  "0 < (2::real) \<and> vega 2 1 1 0 1 = 2\<^sup>2 * 1 * 1 * gamma 2 1 1 0 1"
  using vega_gamma [of 2 1 1 1 0] by simp

text \<open>
  C23. Rho of the call (per percentage point) is maturity times the difference of
  spot times call delta and the call price.
\<close>

theorem rho_call_delta:
  "100 * rho_call S K T r sigma = T * (S * delta S K T r sigma True - call_price S K T r sigma)"
  by (simp add: rho_call_def delta_def call_price_def Let_def algebra_simps)

text \<open>
  C24. The call price is homogeneous of degree one in spot and strike.
\<close>

theorem call_price_scale: "call_price (c * S) (c * K) T r sigma = c * call_price S K T r sigma"
proof (cases "c = 0")
  case True
  then show ?thesis by (simp add: call_price_def Let_def)
next
  case False
  then show ?thesis
    by (simp add: call_price_def Let_def d1_scale d2_scale right_diff_distrib)
qed

text \<open>
  C27. Delta is a probability and its complement: the call delta lies strictly
  between 0 and 1 and the put delta strictly between -1 and 0, for all inputs.
\<close>

theorem delta_range:
  "0 < delta S K T r sigma True \<and> delta S K T r sigma True < 1 \<and>
   - 1 < delta S K T r sigma False \<and> delta S K T r sigma False < 0"
  using norm_cdf_range [of "d1 S K T r sigma"] by (simp add: delta_def Let_def)

text \<open>
  C28. No-arbitrage upper bound: for positive spot and strike the call is worth
  strictly less than the spot.
\<close>

theorem call_price_below_spot:
  assumes "0 < S" "0 < K"
  shows "call_price S K T r sigma < S"
proof -
  have "S * norm_cdf (d1 S K T r sigma) < S * 1"
    using assms norm_cdf_range [of "d1 S K T r sigma"] by (intro mult_strict_left_mono) simp_all
  moreover have "0 < K * exp (- r * T) * norm_cdf (d2 S K T r sigma)"
    using assms norm_cdf_range [of "d2 S K T r sigma"] by simp
  ultimately show ?thesis by (simp add: call_price_def Let_def)
qed

theorem call_price_below_spot_witness: "(0::real) < 100 \<and> (0::real) < 90 \<and> call_price 100 90 1 (1/20) (1/5) < 100"
  using call_price_below_spot [of 100 90 1 "1/20" "1/5"] by simp

end
