(* ===== verification/Portfolio.thy ===== *)
theory Portfolio
  imports BlackScholes
begin

text \<open>
  \<open>BlackScholesEngine::price_portfolio\<close> (src/cpp_engine/black_scholes.hpp, lines
  122--142).  The source allocates \<open>prices(n)\<close> with \<open>n = S_vec.size()\<close>, zero
  filled, and an OpenMP \<open>parallel for\<close> writes \<open>prices[i]\<close> for every \<open>i < n\<close>,
  reading the \<open>i\<close>-th element of all six input vectors.  No length is checked: a
  vector shorter than \<open>S_vec\<close> is read out of range, which is undefined behaviour
  and modelled as \<open>None\<close>; a longer one has its extra elements ignored.  The loop
  body is \<open>portfolio_step\<close>; the loop runs it over \<open>[0..<n]\<close>.  The lemmas show
  that any order of the iterations (the parallel schedule) gives the same vector,
  which is the element-wise reference \<open>portfolio_spec\<close>.
\<close>

section \<open>Definitions\<close>

definition portfolio_element ::
  "real list \<Rightarrow> real list \<Rightarrow> real list \<Rightarrow> real list \<Rightarrow> real list \<Rightarrow> bool list \<Rightarrow> nat \<Rightarrow> real" where
  "portfolio_element S_vec K_vec T_vec r_vec sigma_vec is_call_vec i =
     (if is_call_vec ! i
      then call_price (S_vec ! i) (K_vec ! i) (T_vec ! i) (r_vec ! i) (sigma_vec ! i)
      else put_price (S_vec ! i) (K_vec ! i) (T_vec ! i) (r_vec ! i) (sigma_vec ! i))"

definition portfolio_step ::
  "real list \<Rightarrow> real list \<Rightarrow> real list \<Rightarrow> real list \<Rightarrow> real list \<Rightarrow> bool list \<Rightarrow> nat \<Rightarrow> real list \<Rightarrow> real list" where
  "portfolio_step S_vec K_vec T_vec r_vec sigma_vec is_call_vec i prices =
     prices[i := portfolio_element S_vec K_vec T_vec r_vec sigma_vec is_call_vec i]"

definition price_portfolio ::
  "real list \<Rightarrow> real list \<Rightarrow> real list \<Rightarrow> real list \<Rightarrow> real list \<Rightarrow> bool list \<Rightarrow> real list option" where
  "price_portfolio S_vec K_vec T_vec r_vec sigma_vec is_call_vec =
     (let n = length S_vec
      in if n \<le> length K_vec \<and> n \<le> length T_vec \<and> n \<le> length r_vec \<and>
            n \<le> length sigma_vec \<and> n \<le> length is_call_vec
         then Some (fold (portfolio_step S_vec K_vec T_vec r_vec sigma_vec is_call_vec) [0..<n]
                         (replicate n 0))
         else None)"

text \<open>The reference: the \<open>i\<close>-th output is the price of the \<open>i\<close>-th contract.\<close>

definition portfolio_spec ::
  "real list \<Rightarrow> real list \<Rightarrow> real list \<Rightarrow> real list \<Rightarrow> real list \<Rightarrow> bool list \<Rightarrow> real list" where
  "portfolio_spec S_vec K_vec T_vec r_vec sigma_vec is_call_vec =
     map (portfolio_element S_vec K_vec T_vec r_vec sigma_vec is_call_vec) [0..<length S_vec]"

section \<open>Indexed writes\<close>

text \<open>
  Writing \<open>f i\<close> at every index of a list of in-range indices, in any order and with
  repetitions, leaves \<open>f j\<close> at each written index and the old element elsewhere.
\<close>

lemma fold_update_indices:
  "(\<And>i. i \<in> set is \<Longrightarrow> i < length xs) \<Longrightarrow>
   fold (\<lambda>i ys. ys[i := f i]) is xs = map (\<lambda>j. if j \<in> set is then f j else xs ! j) [0..<length xs]"
proof (induction "is" arbitrary: xs)
  case Nil
  then show ?case by (simp add: map_nth)
next
  case (Cons i "is")
  have "fold (\<lambda>i ys. ys[i := f i]) is (xs[i := f i]) =
        map (\<lambda>j. if j \<in> set is then f j else xs[i := f i] ! j) [0..<length xs]"
    using Cons.prems by (simp add: Cons.IH)
  then show ?case by (auto simp: nth_list_update intro!: map_cong)
qed

lemma fold_portfolio_step:
  "(\<And>i. i \<in> set is \<Longrightarrow> i < length xs) \<Longrightarrow>
   fold (portfolio_step Ss Ks Ts rs sigmas cs) is xs =
     map (\<lambda>j. if j \<in> set is then portfolio_element Ss Ks Ts rs sigmas cs j else xs ! j) [0..<length xs]"
  unfolding portfolio_step_def by (rule fold_update_indices)

lemma fold_portfolio_step_all:
  assumes "set is = {0..<length xs}"
  shows "fold (portfolio_step Ss Ks Ts rs sigmas cs) is xs =
         map (portfolio_element Ss Ks Ts rs sigmas cs) [0..<length xs]"
proof -
  have "fold (portfolio_step Ss Ks Ts rs sigmas cs) is xs =
        map (\<lambda>j. if j \<in> set is then portfolio_element Ss Ks Ts rs sigmas cs j else xs ! j) [0..<length xs]"
    by (rule fold_portfolio_step) (use assms in auto)
  also have "\<dots> = map (portfolio_element Ss Ks Ts rs sigmas cs) [0..<length xs]"
    by (intro map_cong) (auto simp: assms)
  finally show ?thesis .
qed

section \<open>Properties\<close>

text \<open>
  C8. Functional correctness: when no input vector is shorter than \<open>S_vec\<close>,
  \<open>price_portfolio\<close> returns the vector whose \<open>i\<close>-th entry is the call or put
  price of the \<open>i\<close>-th contract, in input order; otherwise it has no result.
\<close>

theorem price_portfolio_correct:
  "price_portfolio Ss Ks Ts rs sigmas cs =
     (if length Ss \<le> length Ks \<and> length Ss \<le> length Ts \<and> length Ss \<le> length rs \<and>
         length Ss \<le> length sigmas \<and> length Ss \<le> length cs
      then Some (portfolio_spec Ss Ks Ts rs sigmas cs) else None)"
  by (simp add: price_portfolio_def portfolio_spec_def fold_portfolio_step_all Let_def)

text \<open>
  C9. The iterations of the parallel loop commute: running the loop body over
  the indices in any order (any list covering \<open>0..<n\<close>, repetitions allowed) from
  the zero-filled vector gives the reference vector, so the OpenMP schedule cannot
  change the result.
\<close>

theorem price_portfolio_any_order:
  assumes "set is = {0..<length Ss}"
  shows "fold (portfolio_step Ss Ks Ts rs sigmas cs) is (replicate (length Ss) 0) =
         portfolio_spec Ss Ks Ts rs sigmas cs"
  using assms by (simp add: fold_portfolio_step_all portfolio_spec_def)

theorem price_portfolio_any_order_witness:
  "set [1, 0] = {0..<length [1, 2 :: real]} \<and>
   fold (portfolio_step [1, 2] [1, 1] [1, 1] [0, 0] [1, 1] [True, False]) [1, 0] (replicate (length [1, 2 :: real]) 0) =
   portfolio_spec [1, 2] [1, 1] [1, 1] [0, 0] [1, 1] [True, False]"
proof -
  have h: "set [1, 0] = {0..<length [1, 2 :: real]}" by auto
  show ?thesis using price_portfolio_any_order [OF h] h by simp
qed

end
