(* ===== verification/ImpliedVol.thy ===== *)
theory ImpliedVol
  imports BlackScholes
begin

text \<open>
  \<open>BlackScholesEngine::implied_volatility\<close> (src/cpp_engine/black_scholes.hpp,
  lines 98--119): a Newton--Raphson search over sigma, at most 100 rounds, that
  stops early when vega is below \<open>10\<^sup>-\<^sup>1\<^sup>0\<close> (\<open>break\<close>) or the price error is below
  \<open>10\<^sup>-\<^sup>6\<close> (\<open>return sigma\<close>), and otherwise clamps the Newton update to
  \<open>[0.001, 5]\<close>.  The for-loop is \<open>iv_loop\<close>, a primitive recursion on the number
  of rounds left.  \<open>iv_search\<close> is the same loop with each of its three exits
  labelled (the tagged outcome the spec asks for, with the number of completed
  updates); \<open>iv_search_refines\<close> shows that forgetting the label gives exactly the
  code's result.
\<close>

section \<open>The loop of the source\<close>

definition iv_tolerance :: real where
  "iv_tolerance = 0.000001"

definition vega_floor :: real where
  "vega_floor = 0.0000000001"

definition iv_max_iterations :: nat where
  "iv_max_iterations = 100"

definition model_price :: "real \<Rightarrow> real \<Rightarrow> real \<Rightarrow> real \<Rightarrow> bool \<Rightarrow> real \<Rightarrow> real" where
  "model_price S K T r is_call sigma =
     (if is_call then call_price S K T r sigma else put_price S K T r sigma)"

definition iv_clamp :: "real \<Rightarrow> real" where
  "iv_clamp sigma = max 0.001 (min sigma 5.0)"

primrec iv_loop :: "real \<Rightarrow> real \<Rightarrow> real \<Rightarrow> real \<Rightarrow> real \<Rightarrow> bool \<Rightarrow> nat \<Rightarrow> real \<Rightarrow> real" where
  "iv_loop option_price S K T r is_call 0 sigma = sigma"
| "iv_loop option_price S K T r is_call (Suc n) sigma =
     (let price = model_price S K T r is_call sigma;
          vega_val = vega S K T r sigma
      in if \<bar>vega_val\<bar> < vega_floor then sigma
         else let diff = option_price - price
              in if \<bar>diff\<bar> < iv_tolerance then sigma
                 else iv_loop option_price S K T r is_call n (iv_clamp (sigma + diff / vega_val)))"

definition implied_volatility :: "real \<Rightarrow> real \<Rightarrow> real \<Rightarrow> real \<Rightarrow> real \<Rightarrow> bool \<Rightarrow> real \<Rightarrow> real" where
  "implied_volatility option_price S K T r is_call initial_guess =
     iv_loop option_price S K T r is_call iv_max_iterations initial_guess"

text \<open>The default argument \<open>initial_guess = 0.3\<close>.\<close>

definition implied_volatility_default :: "real \<Rightarrow> real \<Rightarrow> real \<Rightarrow> real \<Rightarrow> real \<Rightarrow> bool \<Rightarrow> real" where
  "implied_volatility_default option_price S K T r is_call =
     implied_volatility option_price S K T r is_call 0.3"

section \<open>The loop with labelled exits\<close>

text \<open>
  \<open>Converged s i\<close>: the price error at \<open>s\<close> is below the tolerance;
  \<open>Degenerate s i\<close>: vega at \<open>s\<close> is below its floor; \<open>NotConverged s i\<close>: the
  iteration budget is spent.  \<open>i\<close> counts the Newton updates performed.
\<close>

datatype iv_outcome = Converged real nat | Degenerate real nat | NotConverged real nat

fun iv_sigma :: "iv_outcome \<Rightarrow> real" where
  "iv_sigma (Converged s i) = s"
| "iv_sigma (Degenerate s i) = s"
| "iv_sigma (NotConverged s i) = s"

fun iv_updates :: "iv_outcome \<Rightarrow> nat" where
  "iv_updates (Converged s i) = i"
| "iv_updates (Degenerate s i) = i"
| "iv_updates (NotConverged s i) = i"

primrec iv_search :: "real \<Rightarrow> real \<Rightarrow> real \<Rightarrow> real \<Rightarrow> real \<Rightarrow> bool \<Rightarrow> nat \<Rightarrow> nat \<Rightarrow> real \<Rightarrow> iv_outcome" where
  "iv_search option_price S K T r is_call 0 i sigma = NotConverged sigma i"
| "iv_search option_price S K T r is_call (Suc n) i sigma =
     (let price = model_price S K T r is_call sigma;
          vega_val = vega S K T r sigma
      in if \<bar>vega_val\<bar> < vega_floor then Degenerate sigma i
         else let diff = option_price - price
              in if \<bar>diff\<bar> < iv_tolerance then Converged sigma i
                 else iv_search option_price S K T r is_call n (Suc i) (iv_clamp (sigma + diff / vega_val)))"

definition implied_volatility_outcome :: "real \<Rightarrow> real \<Rightarrow> real \<Rightarrow> real \<Rightarrow> real \<Rightarrow> bool \<Rightarrow> real \<Rightarrow> iv_outcome" where
  "implied_volatility_outcome option_price S K T r is_call initial_guess =
     iv_search option_price S K T r is_call iv_max_iterations 0 initial_guess"

section \<open>Lemmas\<close>

lemma iv_clamp_range: "0.001 \<le> iv_clamp s \<and> iv_clamp s \<le> 5"
  by (simp add: iv_clamp_def)

lemma iv_search_sigma [simp]: "iv_sigma (iv_search p S K T r c n i s) = iv_loop p S K T r c n s"
  by (induction n arbitrary: i s) (simp_all add: Let_def)

lemma iv_loop_range: "iv_loop p S K T r c n s = s \<or> (0.001 \<le> iv_loop p S K T r c n s \<and> iv_loop p S K T r c n s \<le> 5)"
proof (induction n arbitrary: s)
  case 0
  then show ?case by simp
next
  case (Suc n)
  let ?s' = "iv_clamp (s + (p - model_price S K T r c s) / vega S K T r s)"
  have "iv_loop p S K T r c n ?s' = ?s' \<or>
        (0.001 \<le> iv_loop p S K T r c n ?s' \<and> iv_loop p S K T r c n ?s' \<le> 5)"
    by (rule Suc.IH)
  then show ?case using iv_clamp_range [of "s + (p - model_price S K T r c s) / vega S K T r s"]
    by (auto simp: Let_def)
qed

lemma iv_search_updates_le: "iv_updates (iv_search p S K T r c n i s) \<le> i + n"
proof (induction n arbitrary: i s)
  case 0
  then show ?case by simp
next
  case (Suc n)
  have "\<forall>s. iv_updates (iv_search p S K T r c n (Suc i) s) \<le> Suc i + n"
    using Suc.IH by blast
  then show ?case by (simp add: Let_def)
qed

lemma iv_search_not_converged:
  "iv_search p S K T r c n i s = NotConverged s' j \<Longrightarrow> j = i + n"
  by (induction n arbitrary: i s) (fastforce simp: Let_def split: if_splits)+

lemma iv_search_exit:
  "(iv_search p S K T r c n i s = Converged s' j \<longrightarrow> \<bar>p - model_price S K T r c s'\<bar> < iv_tolerance) \<and>
   (iv_search p S K T r c n i s = Degenerate s' j \<longrightarrow> \<bar>vega S K T r s'\<bar> < vega_floor)"
  by (induction n arbitrary: i s) (auto simp: Let_def)

lemma vega_at_d1_zero: "vega 1 1 1 (-9/200) (3/10) = norm_pdf 0"
  by (simp add: vega_def d1_def Let_def)

lemma vega_at_d1_zero_ge: "\<not> \<bar>vega 1 1 1 (-9/200) (3/10)\<bar> < vega_floor"
proof -
  have "1 / 3 \<le> vega 1 1 1 (-9/200) (3/10)"
    unfolding vega_at_d1_zero by (rule norm_pdf_zero_ge)
  then show ?thesis by (simp add: vega_floor_def)
qed

lemma vega_tiny_spot:
  assumes "0 < S" "S \<le> 1 / 10 ^ 12"
  shows "\<bar>vega S S 1 r sigma\<bar> < vega_floor"
proof -
  have eq: "\<bar>vega S S 1 r sigma\<bar> = S * norm_pdf (d1 S S 1 r sigma)"
    using assms by (simp add: vega_def Let_def abs_mult abs_of_pos)
  have "S * norm_pdf (d1 S S 1 r sigma) \<le> S * (1 / 2)"
    using assms norm_pdf_le_half by (intro mult_left_mono) simp_all
  moreover have "S * (1 / 2) < 1 / 10 ^ 10" using assms by simp
  ultimately show ?thesis using eq unfolding vega_floor_def by linarith
qed

section \<open>Properties\<close>

text \<open>
  C5. A \<open>Converged\<close> outcome is sound: the model price at the returned sigma is within
  the tolerance \<open>10\<^sup>-\<^sup>6\<close> of the target price.
\<close>

theorem iv_converged_sound:
  assumes "implied_volatility_outcome p S K T r c g = Converged s i"
  shows "\<bar>p - model_price S K T r c s\<bar> < iv_tolerance"
  using assms iv_search_exit by (simp add: implied_volatility_outcome_def)

theorem iv_converged_sound_witness:
  "implied_volatility_outcome (call_price 1 1 1 (-9/200) (3/10)) 1 1 1 (-9/200) True (3/10) = Converged (3/10) 0 \<and>
   \<bar>call_price 1 1 1 (-9/200) (3/10) - model_price 1 1 1 (-9/200) True (3/10)\<bar> < iv_tolerance"
proof -
  have o: "implied_volatility_outcome (call_price 1 1 1 (-9/200) (3/10)) 1 1 1 (-9/200) True (3/10) = Converged (3/10) 0"
    using vega_at_d1_zero_ge
    by (simp add: implied_volatility_outcome_def iv_max_iterations_def numeral_eq_Suc model_price_def iv_tolerance_def)
  show ?thesis using iv_converged_sound [OF o] o by simp
qed

text \<open>
  C6. The result of \<open>implied_volatility\<close> is either the initial guess (the search
  stopped before any update) or a clamped value in \<open>[0.001, 5]\<close>.
\<close>

theorem implied_volatility_range:
  "implied_volatility p S K T r c g = g \<or>
   (0.001 \<le> implied_volatility p S K T r c g \<and> implied_volatility p S K T r c g \<le> 5)"
  unfolding implied_volatility_def by (rule iv_loop_range)

text \<open>
  C20. The search is bounded: it performs at most 100 Newton updates, and it reports
  \<open>NotConverged\<close> only after exactly 100.
\<close>

theorem iv_budget:
  "iv_updates (implied_volatility_outcome p S K T r c g) \<le> 100 \<and>
   (case implied_volatility_outcome p S K T r c g of NotConverged s j \<Rightarrow> j = 100 | _ \<Rightarrow> True)"
  using iv_search_updates_le [of p S K T r c 100 0 g] iv_search_not_converged [of p S K T r c 100 0 g]
  by (simp add: implied_volatility_outcome_def iv_max_iterations_def split: iv_outcome.split)

text \<open>
  C7. The code's scalar result does not tell success from failure: for a target
  price of 1 with \<open>S = K = 10\<^sup>-\<^sup>1\<^sup>2\<close>, vega is below its floor at the initial guess, so
  \<open>implied_volatility\<close> returns \<open>0.3\<close> although the price there is nowhere near the
  target; only the labelled search reports \<open>Degenerate\<close>.
\<close>

theorem iv_silent_failure:
  "implied_volatility 1 (1 / 10 ^ 12) (1 / 10 ^ 12) 1 0 True (3/10) = 3/10 \<and>
   implied_volatility_outcome 1 (1 / 10 ^ 12) (1 / 10 ^ 12) 1 0 True (3/10) = Degenerate (3/10) 0 \<and>
   \<not> \<bar>1 - call_price (1 / 10 ^ 12) (1 / 10 ^ 12) 1 0 (3/10)\<bar> < iv_tolerance"
proof -
  let ?e = "1 / 10 ^ 12 :: real"
  have v: "\<bar>vega ?e ?e 1 0 (3/10)\<bar> < vega_floor"
    by (rule vega_tiny_spot) simp_all
  then have o: "implied_volatility_outcome 1 ?e ?e 1 0 True (3/10) = Degenerate (3/10) 0"
    by (simp add: implied_volatility_outcome_def iv_max_iterations_def numeral_eq_Suc)
  from v have l: "implied_volatility 1 ?e ?e 1 0 True (3/10) = 3/10"
    by (simp add: implied_volatility_def iv_max_iterations_def numeral_eq_Suc)
  have "\<bar>call_price ?e ?e 1 0 (3/10)\<bar> \<le> ?e * 4 + ?e * 4"
    using call_price_abs_le [of ?e ?e 1 0 "3/10"] by simp
  then have "\<not> \<bar>1 - call_price ?e ?e 1 0 (3/10)\<bar> < iv_tolerance"
    by (simp add: iv_tolerance_def abs_if split: if_splits)
  with o l show ?thesis by simp
qed

end
