(* ===== verification/Bindings.thy ===== *)
theory Bindings
  imports Engine Portfolio ImpliedVol
begin

text \<open>
  The Python module \<open>cpp_quant_engine\<close> (src/cpp_engine/bindings.cpp).  The module
  registers the static methods of \<open>BlackScholesEngine\<close> (lines 14--24) and the
  class \<open>MonteCarloEngine\<close> with its constructor, whose \<open>seed\<close> defaults to 42, and
  its four methods (lines 26--31).  A Python session is modelled as a store of the
  engine objects it has constructed, addressed by handles \<open>0, 1, \<dots>\<close> in order of
  construction; a static call reads no state.  The registration of
  \<open>implied_volatility\<close> names no \<open>py::arg\<close>, so pybind11 does not carry over the C++
  default \<open>initial_guess = 0.3\<close>: the exposed call takes all seven arguments.
\<close>

section \<open>Static calls\<close>

datatype bs_call =
    CallPrice real real real real real
  | PutPrice real real real real real
  | Delta real real real real real bool
  | Gamma real real real real real
  | Vega real real real real real
  | ThetaCall real real real real real
  | RhoCall real real real real real
  | ImpliedVolatility real real real real real bool real
  | PricePortfolio "real list" "real list" "real list" "real list" "real list" "bool list"

datatype bs_output = Scalar real | Vector "real list" | ReadOutOfRange

fun bs_eval :: "bs_call \<Rightarrow> bs_output" where
  "bs_eval (CallPrice S K T r sigma) = Scalar (call_price S K T r sigma)"
| "bs_eval (PutPrice S K T r sigma) = Scalar (put_price S K T r sigma)"
| "bs_eval (Delta S K T r sigma is_call) = Scalar (delta S K T r sigma is_call)"
| "bs_eval (Gamma S K T r sigma) = Scalar (gamma S K T r sigma)"
| "bs_eval (Vega S K T r sigma) = Scalar (vega S K T r sigma)"
| "bs_eval (ThetaCall S K T r sigma) = Scalar (theta_call S K T r sigma)"
| "bs_eval (RhoCall S K T r sigma) = Scalar (rho_call S K T r sigma)"
| "bs_eval (ImpliedVolatility p S K T r is_call g) = Scalar (implied_volatility p S K T r is_call g)"
| "bs_eval (PricePortfolio Ss Ks Ts rs sigmas cs) =
     (case price_portfolio Ss Ks Ts rs sigmas cs of Some v \<Rightarrow> Vector v | None \<Rightarrow> ReadOutOfRange)"

section \<open>A session of engine objects\<close>

record 'g session =
  engines :: "'g mc_engine list"

definition session0 :: "'g session" where
  "session0 = \<lparr>engines = []\<rparr>"

datatype py_op = Construct "32 word option" | Static bs_call | Method nat mc_call

datatype py_result = NewHandle nat | StaticOut bs_output | MethodOut mc_output | NoSuchObject

fun py_step :: "(32 word \<Rightarrow> 'g) \<Rightarrow> ('d, 'g) normal_dist \<Rightarrow> 'g session \<Rightarrow> py_op \<Rightarrow> py_result \<times> 'g session" where
  "py_step seed_rng N st (Construct seed) =
     (let e = (case seed of None \<Rightarrow> MonteCarloEngine_default seed_rng | Some s \<Rightarrow> MonteCarloEngine seed_rng s)
      in (NewHandle (length (engines st)), st\<lparr>engines := engines st @ [e]\<rparr>))"
| "py_step seed_rng N st (Static c) = (StaticOut (bs_eval c), st)"
| "py_step seed_rng N st (Method h c) =
     (if h < length (engines st)
      then (case mc_step N (engines st ! h) c of
              (out, e') \<Rightarrow> (MethodOut out, st\<lparr>engines := (engines st)[h := e']\<rparr>))
      else (NoSuchObject, st))"

fun py_run :: "(32 word \<Rightarrow> 'g) \<Rightarrow> ('d, 'g) normal_dist \<Rightarrow> 'g session \<Rightarrow> py_op list \<Rightarrow> py_result list \<times> 'g session" where
  "py_run seed_rng N st [] = ([], st)"
| "py_run seed_rng N st (op # ops) =
     (case py_step seed_rng N st op of
        (res, st') \<Rightarrow> (case py_run seed_rng N st' ops of (ress, st'') \<Rightarrow> (res # ress, st'')))"

text \<open>The calls a run makes on the object with handle \<open>h\<close>, and the outputs they return.\<close>

fun method_calls :: "nat \<Rightarrow> py_op list \<Rightarrow> mc_call list" where
  "method_calls h [] = []"
| "method_calls h (Method h' c # ops) = (if h' = h then c # method_calls h ops else method_calls h ops)"
| "method_calls h (_ # ops) = method_calls h ops"

fun method_outputs :: "nat \<Rightarrow> py_op list \<Rightarrow> py_result list \<Rightarrow> mc_output list" where
  "method_outputs h (Method h' c # ops) (MethodOut out # ress) =
     (if h' = h then out # method_outputs h ops ress else method_outputs h ops ress)"
| "method_outputs h (_ # ops) (_ # ress) = method_outputs h ops ress"
| "method_outputs h _ _ = []"

section \<open>Lemmas\<close>

lemma py_step_length:
  "length (engines st) \<le> length (engines (snd (py_step seed_rng N st op)))"
  by (cases op) (auto simp: Let_def split: prod.splits)

lemma py_step_other:
  "h < length (engines st) \<Longrightarrow>
   engines (snd (py_step seed_rng N st op)) ! h =
     (case op of Method h' c \<Rightarrow> if h' = h then snd (mc_step N (engines st ! h) c) else engines st ! h
               | _ \<Rightarrow> engines st ! h)"
  by (cases op) (auto simp: Let_def nth_append nth_list_update split: prod.splits)

lemma py_run_isolation:
  assumes "h < length (engines st)"
  shows "method_outputs h ops (fst (py_run seed_rng N st ops)) = fst (mc_run N (engines st ! h) (method_calls h ops)) \<and>
         engines (snd (py_run seed_rng N st ops)) ! h = snd (mc_run N (engines st ! h) (method_calls h ops))"
  using assms
proof (induction ops arbitrary: st)
  case Nil
  then show ?case by simp
next
  case (Cons op ops)
  obtain res st' where s: "py_step seed_rng N st op = (res, st')" by fastforce
  have len: "h < length (engines st')"
    using Cons.prems py_step_length [of st seed_rng N op] s by simp
  have eh: "engines st' ! h = (case op of Method h' c \<Rightarrow> if h' = h then snd (mc_step N (engines st ! h) c) else engines st ! h
               | _ \<Rightarrow> engines st ! h)"
    using py_step_other [OF Cons.prems, of seed_rng N op] s by simp
  note IH = Cons.IH [OF len]
  show ?case
  proof (cases op)
    case (Method h' c)
    then show ?thesis using IH s eh Cons.prems
      by (cases "h' = h") (auto split: prod.splits if_splits)
  qed (use IH s eh in \<open>auto simp: Let_def split: prod.splits\<close>)
qed

end
