(* ===== verification/IVMachine.thy ===== *)
theory IVMachine
  imports ImpliedVol
begin

text \<open>
  The for-loop of \<open>BlackScholesEngine::implied_volatility\<close> as a transition
  system.  A state is either the loop head, with the current \<open>sigma\<close> and the
  counter \<open>i\<close>, or a stopped state carrying the labelled outcome.  One transition is
  one evaluation of the loop condition and, if it holds, of the body up to its
  next exit or back edge.
\<close>

datatype iv_state = Iterating real nat | Stopped iv_outcome

inductive iv_step :: "real \<Rightarrow> real \<Rightarrow> real \<Rightarrow> real \<Rightarrow> real \<Rightarrow> bool \<Rightarrow> iv_state \<Rightarrow> iv_state \<Rightarrow> bool"
  for p S K T r c where
  budget:
    "iv_max_iterations \<le> i \<Longrightarrow> iv_step p S K T r c (Iterating s i) (Stopped (NotConverged s i))"
| degenerate:
    "i < iv_max_iterations \<Longrightarrow> \<bar>vega S K T r s\<bar> < vega_floor \<Longrightarrow>
     iv_step p S K T r c (Iterating s i) (Stopped (Degenerate s i))"
| converged:
    "i < iv_max_iterations \<Longrightarrow> \<not> \<bar>vega S K T r s\<bar> < vega_floor \<Longrightarrow>
     \<bar>p - model_price S K T r c s\<bar> < iv_tolerance \<Longrightarrow>
     iv_step p S K T r c (Iterating s i) (Stopped (Converged s i))"
| update:
    "i < iv_max_iterations \<Longrightarrow> \<not> \<bar>vega S K T r s\<bar> < vega_floor \<Longrightarrow>
     \<not> \<bar>p - model_price S K T r c s\<bar> < iv_tolerance \<Longrightarrow>
     iv_step p S K T r c (Iterating s i)
       (Iterating (iv_clamp (s + (p - model_price S K T r c s) / vega S K T r s)) (Suc i))"

text \<open>The rank decreases with every transition: the loop head has one more step than the
  rounds left in the budget.\<close>

fun iv_rank :: "iv_state \<Rightarrow> nat" where
  "iv_rank (Iterating s i) = Suc (iv_max_iterations - i)"
| "iv_rank (Stopped out) = 0"

section \<open>Lemmas\<close>

code_pred iv_step .

inductive_cases iv_step_IteratingE: "iv_step p S K T r c (Iterating s i) t"
inductive_cases iv_step_StoppedE [elim!]: "iv_step p S K T r c (Stopped out) t"

lemma iv_step_deterministic:
  "iv_step p S K T r c s t \<Longrightarrow> iv_step p S K T r c s u \<Longrightarrow> u = t"
  by (induction rule: iv_step.induct) (auto elim: iv_step_IteratingE)

lemma iv_step_rank: "iv_step p S K T r c s t \<Longrightarrow> iv_rank t < iv_rank s"
  by (induction rule: iv_step.induct) (auto simp: iv_max_iterations_def)

lemma iv_step_wf: "wf {(t, s). iv_step p S K T r c s t}"
  by (rule wf_subset [OF wf_measure [of iv_rank]]) (auto dest: iv_step_rank)

lemma iv_step_progress: "\<exists>t. iv_step p S K T r c (Iterating s i) t"
  by (meson iv_step.intros not_le)

lemma iv_search_reached:
  "n + i = iv_max_iterations \<Longrightarrow>
   (iv_step p S K T r c)\<^sup>*\<^sup>* (Iterating s i) (Stopped (iv_search p S K T r c n i s))"
proof (induction n arbitrary: i s)
  case 0
  then show ?case by (auto intro: budget)
next
  case (Suc n)
  let ?s' = "iv_clamp (s + (p - model_price S K T r c s) / vega S K T r s)"
  have lt: "i < iv_max_iterations" using Suc.prems by simp
  show ?case
  proof (cases "\<bar>vega S K T r s\<bar> < vega_floor")
    case True
    then show ?thesis using lt by (auto intro: degenerate)
  next
    case nv: False
    show ?thesis
    proof (cases "\<bar>p - model_price S K T r c s\<bar> < iv_tolerance")
      case True
      then show ?thesis using lt nv by (auto simp: Let_def intro: converged)
    next
      case False
      have "(iv_step p S K T r c)\<^sup>*\<^sup>* (Iterating ?s' (Suc i)) (Stopped (iv_search p S K T r c n (Suc i) ?s'))"
        using Suc.prems by (intro Suc.IH) simp
      then show ?thesis using lt nv False
        by (auto simp: Let_def intro: converse_rtranclp_into_rtranclp update)
    qed
  qed
qed

lemma iv_final_unique:
  assumes "(iv_step p S K T r c)\<^sup>*\<^sup>* s t" "(iv_step p S K T r c)\<^sup>*\<^sup>* s u"
    and "\<nexists>v. iv_step p S K T r c t v" "\<nexists>v. iv_step p S K T r c u v"
  shows "t = u"
  using assms
proof (induction arbitrary: u rule: converse_rtranclp_induct)
  case base
  then show ?case by (auto elim: converse_rtranclpE)
next
  case (step s s')
  note IH = step.IH and st1 = step.hyps(1) and prems = step.prems
  from prems(1) show ?case
  proof (cases rule: converse_rtranclpE)
    case base
    then show ?thesis using st1 prems(3) by blast
  next
    case (step s'')
    then have "s'' = s'" using iv_step_deterministic st1 by blast
    then show ?thesis using IH prems step by blast
  qed
qed

lemma iv_run_outcome:
  "(iv_step p S K T r c)\<^sup>*\<^sup>* (Iterating g 0) t \<Longrightarrow> \<nexists>v. iv_step p S K T r c t v \<Longrightarrow>
   t = Stopped (implied_volatility_outcome p S K T r c g)"
  unfolding implied_volatility_outcome_def
  by (rule iv_final_unique [OF _ iv_search_reached]) auto

section \<open>Properties\<close>

text \<open>
  C29. Liveness of the Newton search: the transition system has no infinite
  execution (every transition lowers \<open>iv_rank\<close>), and the execution from the loop
  entry \<open>Iterating initial_guess 0\<close> reaches the stopped state that carries
  exactly the labelled outcome of the search.
\<close>

theorem iv_machine_terminates:
  "wf {(t, s). iv_step p S K T r c s t} \<and>
   (iv_step p S K T r c)\<^sup>*\<^sup>* (Iterating g 0) (Stopped (implied_volatility_outcome p S K T r c g))"
  unfolding implied_volatility_outcome_def by (simp add: iv_step_wf iv_search_reached)

end
