(* ===== verification/Spec2Isabelle.thy ===== *)
theory Spec2Isabelle
  imports Bindings IVMachine
begin

text \<open>
  \<^bold>\<open>A verification library for the C++ option-pricing engine of AgenticSpoons.\<close>

  The program (src/cpp_engine/) has two engines and a binding layer:
  \<^item> \<open>BlackScholesEngine\<close> (black_scholes.hpp): static, pure functions -- the normal
    distribution functions, \<open>d1\<close>/\<open>d2\<close>, call and put prices, the Greeks, the
    Newton--Raphson implied-volatility search and the vectorised
    \<open>price_portfolio\<close>;
  \<^item> \<open>MonteCarloEngine\<close> (monte_carlo.hpp): an object owning one \<open>std::mt19937\<close>
    stream that every pricing call advances (European with antithetic variates,
    arithmetic Asian, knock-out barrier, and raw GBM path matrices);
  \<^item> bindings.cpp: the pybind11 module that exposes both engines to Python; a
    Python session constructs engine objects and calls their methods and the
    static pricing functions (\<open>Bindings\<close>).

  Theories and what they model (imports go down the list):
  \<^item> \<open>Prelude\<close>: C++ truncating integer division (\<open>c_div\<close>), the double-valued
    result \<open>dresult\<close> with its \<open>NaN\<close> (the value of \<open>0.0 / 0\<close>), shared list-sum
    and real bounds, and the collection \<open>pricing_simps\<close>.
  \<^item> \<open>NormalDist\<close>: \<open>norm_cdf\<close> (the Abramowitz--Stegun polynomial,
    black_scholes.hpp 15--30) and \<open>norm_pdf\<close> (33--35).  Lemmas: the two tails
    sum to one except at 0, where the polynomial's constant error
    \<open>cdf_tail 0 = 10\<^sup>-\<^sup>9\<close> shows; symmetry of the density.  Properties
    C25--C26: \<open>norm_cdf\<close> lies strictly in \<open>(0, 1)\<close> and is nondecreasing,
    from sign and monotonicity facts on the degree-5 polynomial proved by
    sums of squares and its derivative.
  \<^item> \<open>BlackScholes\<close>: \<open>d1\<close>, \<open>d2\<close>, \<open>call_price\<close>, \<open>put_price\<close>, \<open>delta\<close>,
    \<open>gamma\<close>, \<open>vega\<close>, \<open>theta_call\<close>, \<open>rho_call\<close> (37--95), one definition per
    static method with the code's local variables as \<open>let\<close>s.  Properties
    C1--C4, C22--C24, C27--C28: put--call parity away from \<open>d1 = 0\<close> and
    \<open>d2 = 0\<close>, its defect at the money forward, delta parity, the Black--Scholes
    equation satisfied by the code's theta, gamma and delta, vega against gamma,
    rho against delta, homogeneity of degree one, delta within its range, the
    call below the spot.
  \<^item> \<open>ImpliedVol\<close>: the Newton loop \<open>iv_loop\<close> of \<open>implied_volatility\<close>
    (98--119) and its labelled twin \<open>iv_search\<close> returning an \<open>iv_outcome\<close>
    (\<open>Converged\<close>, \<open>Degenerate\<close>, \<open>NotConverged\<close>); the lemma
    \<open>iv_search_sigma\<close> shows that forgetting the label gives the code's loop.
    Properties C5--C7, C20: soundness of a converged result, the result range
    \<open>[0.001, 5]\<close> after an update, the silent return of the guess on a
    degenerate vega, the budget of 100 updates.
  \<^item> \<open>IVMachine\<close>: the same loop as a transition system \<open>iv_step\<close> between
    the loop head \<open>Iterating sigma i\<close> and stopped states, an \<open>inductive\<close>
    relation with \<open>code_pred\<close>; determinism, progress, uniqueness of the final
    state.  Property C29 (liveness): no infinite execution (a rank decreasing
    with each transition) and the run from the entry stops at the outcome.
  \<^item> \<open>Portfolio\<close>: \<open>price_portfolio\<close> (122--142) as a fold of the loop body over
    the indices, \<open>None\<close> where the code reads out of range.  Properties C8--C9:
    it equals the element-wise reference (so a longer vector is accepted and
    its extra elements ignored), and any iteration order gives the same vector.
  \<^item> \<open>RandomSource\<close>: the standard-library normal distribution and generator as
    an interface (\<open>normal_dist\<close>), \<open>draws\<close> and \<open>draw_paths\<close>, the reflected
    source used for antithetic arguments and a list-replaying source for
    concrete runs.
  \<^item> \<open>MonteCarlo\<close>: the engine record, \<open>price_european\<close> (monte_carlo.hpp
    21--45), \<open>price_asian\<close> (48--74), \<open>price_barrier\<close> (77--111), each loop a
    primitive recursion on the rounds left.  Properties C10--C17, C21, C30:
    refinement of each loop by a pure function of the variates it consumes,
    antithetic symmetry, Monte Carlo put--call parity per sample, \<open>NaN\<close> for
    fewer than two paths, the exact GBM terminal price, the barrier test (over
    the simulated prices only, so \<open>S0\<close> is never tested), knock-out below
    vanilla, zero-volatility pricing, and the exact number of variates a barrier
    path consumes, which depends on where it is knocked out.
  \<^item> \<open>SimulatePaths\<close>: \<open>simulate_paths\<close> (114--138) with its failures as
    \<open>sim_error\<close> values.  Properties C18--C19: shape and refinement.
  \<^item> \<open>Engine\<close>: the four methods as a call datatype, \<open>mc_step\<close> and \<open>mc_run\<close>
    over call sequences on one engine.
  \<^item> \<open>Bindings\<close>: the module registration as static calls (\<open>bs_call\<close>,
    \<open>bs_eval\<close>) and a session (\<open>py_step\<close>, \<open>py_run\<close>) that stores the
    constructed engine objects under handles in order of construction.  Lemma
    \<open>py_run_isolation\<close>: the outputs of the calls on one object and its final
    state are those of \<open>mc_run\<close> on that object's calls alone.

  Modelling conventions.  Doubles are real numbers: rounding, overflow of \<open>exp\<close>
  and the IEEE behaviour of \<open>log\<close>, \<open>sqrt\<close> and division outside the contract
  domain (\<open>S, K, T, sigma > 0\<close>) are not modelled; where the code deliberately
  reaches a special value on its own inputs (an average over zero samples) the
  model says so explicitly.  Counts are \<open>int\<close> as in the source, converted
  with \<open>nat\<close> where a loop runs \<open>for (int i = 0; i < n; ++i)\<close>, which runs no
  round for a negative \<open>n\<close>.  The seed is a \<open>32 word\<close> (\<open>unsigned\<close>).

  Bounds and fuel.  No fuel is needed: every loop of the source has a fixed
  round count (100 Newton rounds, \<open>n_paths\<close>, \<open>n_steps\<close>), so every loop is a
  primitive recursion on that count and every definition is total and
  executable.

  Not modelled.  The Mersenne Twister and \<open>std::normal_distribution\<close> are
  library code and enter only through the \<open>normal_dist\<close> interface, so no
  statistical property (convergence of the estimators) is claimed.  OpenMP
  scheduling is modelled by order-independence in \<open>Portfolio\<close>; the data race of
  \<open>simulate_paths\<close> on the shared generator is recorded as a finding and the
  model runs the rows in order.  Of bindings.cpp, the conversion of Python
  values to C++ arguments is not modelled: the session's calls carry HOL values,
  and an out-of-range handle (\<open>NoSuchObject\<close>) stands for a Python reference
  that does not denote an engine.
\<close>

end
